theory Spec2Isabelle
  imports Complex_Main "HOL-Library.Sublist"
begin

section \<open>Text primitives\<close>

text \<open>
  Python strings are sequences of code points. A \<^typ>\<open>char\<close> stands for one code point
  below 256 (Latin-1), so \<^typ>\<open>string\<close> models every text whose code points are in that
  range. The three character classes below are Python's \<^verbatim>\<open>str.lower\<close>, the regular
  expression class \<^verbatim>\<open>\d\<close> and the whitespace of \<^verbatim>\<open>\s\<close> and
  \<^verbatim>\<open>str.strip\<close>, restricted to that range.
\<close>

definition lower_char :: "char \<Rightarrow> char" where
  "lower_char c =
     (let n = (of_char c :: nat)
      in if (65 \<le> n \<and> n \<le> 90) \<or> (192 \<le> n \<and> n \<le> 222 \<and> n \<noteq> 215)
         then char_of (n + 32) else c)"

definition lower :: "string \<Rightarrow> string" where
  "lower s = map lower_char s"

definition is_digit :: "char \<Rightarrow> bool" where
  "is_digit c = (let n = (of_char c :: nat) in 48 \<le> n \<and> n \<le> 57)"

definition is_space :: "char \<Rightarrow> bool" where
  "is_space c =
     (let n = (of_char c :: nat)
      in (9 \<le> n \<and> n \<le> 13) \<or> (28 \<le> n \<and> n \<le> 32) \<or> n = 133 \<or> n = 160)"

text \<open>\<^verbatim>\<open>needle in haystack\<close> on strings: the needle starts at some position.\<close>

fun str_in :: "string \<Rightarrow> string \<Rightarrow> bool" where
  "str_in needle [] = (needle = [])"
| "str_in needle (c # cs) = (prefix needle (c # cs) \<or> str_in needle cs)"

text \<open>\<^verbatim>\<open>str.strip()\<close>: leading and trailing whitespace removed.\<close>

definition strip :: "string \<Rightarrow> string" where
  "strip s = rev (dropWhile is_space (rev (dropWhile is_space s)))"

section \<open>Requirement flags from an unstructured response (pricing.py, lines 13-22)\<close>

text \<open>
  The oracle client always returns a \<^verbatim>\<open>str\<close>, so the \<^verbatim>\<open>isinstance\<close> test of the source
  holds at every call and the flags are always the keyword flags. The result is the
  dictionary the source builds.
\<close>

definition requirements_of_str :: "string \<Rightarrow> (string \<rightharpoonup> bool)" where
  "requirements_of_str response =
     (let req_str = lower response
      in [''is_digital'' \<mapsto> str_in ''digital'' req_str,
          ''is_3d'' \<mapsto> list_ex (\<lambda>term. str_in term req_str)
                       [''3d'', ''three-dimensional'', ''sculpture'', ''installation''],
          ''needs_height'' \<mapsto> (str_in ''height'' req_str \<or> str_in ''dimension'' req_str),
          ''needs_weight'' \<mapsto> (str_in ''weight'' req_str \<or> str_in ''mass'' req_str),
          ''needs_duration'' \<mapsto> (str_in ''duration'' req_str \<or> str_in ''length'' req_str),
          ''needs_resolution'' \<mapsto> (str_in ''resolution'' req_str \<or> str_in ''quality'' req_str)])"

text \<open>\<^verbatim>\<open>requirements.get(key, False)\<close>\<close>

definition get_flag :: "(string \<rightharpoonup> bool) \<Rightarrow> string \<Rightarrow> bool" where
  "get_flag requirements key = (case requirements key of None \<Rightarrow> False | Some b \<Rightarrow> b)"

text \<open>
  The specification's wording of the same test: a keyword is present, ignoring case, when
  some contiguous piece of the text equals the keyword once both are lower-cased.
\<close>

definition keyword_present :: "string \<Rightarrow> string \<Rightarrow> bool" where
  "keyword_present keyword text =
     (\<exists>before piece after. text = before @ piece @ after \<and> lower piece = lower keyword)"

section \<open>Numbers in oracle responses\<close>

definition digit_value :: "char \<Rightarrow> int" where
  "digit_value c = int (of_char c) - 48"

text \<open>
  \<^verbatim>\<open>int(s)\<close> on a string of decimal digits, of any length (the interpreter's configurable
  limit on the length of such a string is not modelled).
\<close>

definition int_of_digits :: "string \<Rightarrow> int" where
  "int_of_digits s = foldl (\<lambda>n c. 10 * n + digit_value c) 0 s"

text \<open>
  \<^verbatim>\<open>re.search(r"(\d+)", text)\<close>: the leftmost maximal run of digits, empty when
  the text has no digit (pricing.py, lines 28-29).
\<close>

definition search_digits :: "string \<Rightarrow> string" where
  "search_digits text = takeWhile is_digit (dropWhile (\<lambda>c. \<not> is_digit c) text)"

definition market_demand_of :: "string \<Rightarrow> int" where
  "market_demand_of market_result =
     (let m = search_digits market_result in if m = [] then 5 else int_of_digits m)"

text \<open>
  \<^verbatim>\<open>re.findall(r'(\d+(?:\s*\d+)*)', response)\<close>, read from left to right:
  \<open>cur\<close> is the match under construction (empty outside a match) and \<open>gap\<close> the
  whitespace read after its last digit. A digit extends the match over the gap;
  any other character that is not whitespace ends it before the gap.
\<close>

fun scan_numbers :: "string \<Rightarrow> string \<Rightarrow> string \<Rightarrow> string list" where
  "scan_numbers cur gap [] = (if cur = [] then [] else [cur])"
| "scan_numbers cur gap (c # cs) =
     (if is_digit c then scan_numbers (cur @ gap @ [c]) [] cs
      else if cur = [] then scan_numbers [] [] cs
      else if is_space c then scan_numbers cur (gap @ [c]) cs
      else cur # scan_numbers [] [] cs)"

definition findall_numbers :: "string \<Rightarrow> string list" where
  "findall_numbers response = scan_numbers [] [] response"

text \<open>gemini_api.py, lines 184-192: the value returned by \<^verbatim>\<open>get_artist_price\<close>.\<close>

definition artist_price_of :: "string \<Rightarrow> real option" where
  "artist_price_of response =
     (let matches = findall_numbers response
      in if matches = [] then None
         else let nums = map (\<lambda>m. int_of_digits (filter (\<lambda>c. \<not> is_space c) m)) matches
              in Some (real_of_int (sum_list nums) / real (length nums)))"

text \<open>
  A whitespace-normalised reading of the same response, in the specification's words:
  the text is cut at every character that is neither a digit nor whitespace, and each
  piece holding a digit is one number, written with the piece's digits.
\<close>

fun pieces :: "string \<Rightarrow> string list" where
  "pieces [] = [[]]"
| "pieces (c # cs) =
     (if is_digit c \<or> is_space c then (c # hd (pieces cs)) # tl (pieces cs)
      else [] # pieces cs)"

definition numbers_found :: "string \<Rightarrow> int list" where
  "numbers_found response =
     map (\<lambda>p. int_of_digits (filter is_digit p)) (filter (list_ex is_digit) (pieces response))"

section \<open>Values, errors, the outside world\<close>

text \<open>
  A value of the \<^verbatim>\<open>values\<close> dictionary is a float or a string. Arithmetic is Python's on
  these two types: \<^verbatim>\<open>+\<close> adds floats and concatenates strings; a string in any other
  operation of the code (a product with a float, a division, a comparison with a number)
  raises \<^verbatim>\<open>TypeError\<close>. Floats are exact reals here: rounding is not modelled.
\<close>

datatype pyval = Num real | Str string

datatype error = KeyError string | TypeError | DatabaseError string | OSError string

definition and_then :: "error + 'a \<Rightarrow> ('a \<Rightarrow> error + 'b) \<Rightarrow> error + 'b" where
  "and_then m f = (case m of Inl err \<Rightarrow> Inl err | Inr x \<Rightarrow> f x)"

definition subscript :: "(string \<rightharpoonup> pyval) \<Rightarrow> string \<Rightarrow> error + pyval" where
  "subscript values key = (case values key of None \<Rightarrow> Inl (KeyError key) | Some v \<Rightarrow> Inr v)"

definition get_default :: "(string \<rightharpoonup> pyval) \<Rightarrow> string \<Rightarrow> pyval \<Rightarrow> pyval" where
  "get_default values key d = (case values key of None \<Rightarrow> d | Some v \<Rightarrow> v)"

fun num :: "pyval \<Rightarrow> error + real" where
  "num (Num x) = Inr x"
| "num (Str t) = Inl TypeError"

fun py_add :: "pyval \<Rightarrow> pyval \<Rightarrow> error + pyval" where
  "py_add (Num x) (Num y) = Inr (Num (x + y))"
| "py_add (Str a) (Str b) = Inr (Str (a @ b))"
| "py_add v w = Inl TypeError"

fun py_mul :: "pyval \<Rightarrow> pyval \<Rightarrow> error + real" where
  "py_mul (Num x) (Num y) = Inr (x * y)"
| "py_mul v w = Inl TypeError"

text \<open>\<^verbatim>\<open>v * 15\<close> with the integer literal: a string is repeated.\<close>

fun py_times_15 :: "pyval \<Rightarrow> pyval" where
  "py_times_15 (Num x) = Num (x * 15)"
| "py_times_15 (Str t) = Str (concat (replicate 15 t))"

text \<open>Truthiness of an optional value (\<^verbatim>\<open>if resolution:\<close>).\<close>

fun truthy :: "pyval option \<Rightarrow> bool" where
  "truthy None = False"
| "truthy (Some (Num x)) = (x \<noteq> 0)"
| "truthy (Some (Str t)) = (t \<noteq> [])"

text \<open>
  What the code cannot decide by itself is a field of the environment: the reply of the
  remote service to the \<open>n\<close>-th request (\<open>Inl\<close> the text of the exception raised,
  \<open>Inr\<close> the response text), the elapsed time and the wall clock read at the \<open>n\<close>-th
  write, whether the \<open>n\<close>-th database write and the \<open>n\<close>-th append to the data file
  raise (and with which text), and Python's formatting and parsing of floats.
\<close>

record env =
  generate_content :: "nat \<Rightarrow> string \<Rightarrow> string + string"
  elapsed :: "nat \<Rightarrow> real"
  clock :: "nat \<Rightarrow> string"
  db_fault :: "nat \<Rightarrow> string option"
  file_fault :: "nat \<Rightarrow> string option"
  format_float :: "real \<Rightarrow> string"
  format_2f :: "real \<Rightarrow> string"
  parse_float :: "string \<Rightarrow> real option"

text \<open>
  A row of \<^verbatim>\<open>gemini_interactions\<close>: timestamp, request type, prompt, response, duration.
  The state holds the prompts of the requests sent so far, the numbers of writes
  attempted, the table of interactions and the rows of the data file.
\<close>

type_synonym interaction = "string \<times> string \<times> string \<times> string \<times> real"

record state =
  sent :: "string list"
  db_writes :: nat
  file_writes :: nat
  interactions :: "interaction list"
  ledger :: "pyval list list"

definition then_call ::
  "(error + 'a) \<times> state \<Rightarrow> ('a \<Rightarrow> state \<Rightarrow> (error + 'b) \<times> state) \<Rightarrow> (error + 'b) \<times> state" where
  "then_call m f = (case m of (Inl err, s) \<Rightarrow> (Inl err, s) | (Inr x, s) \<Rightarrow> f x s)"

definition format_val :: "env \<Rightarrow> pyval \<Rightarrow> string" where
  "format_val e v = (case v of Num x \<Rightarrow> format_float e x | Str t \<Rightarrow> t)"

fun join :: "string \<Rightarrow> string list \<Rightarrow> string" where
  "join sep [] = []"
| "join sep [x] = x"
| "join sep (x # y # ys) = x @ sep @ join sep (y # ys)"

section \<open>The oracle client (gemini_api.py)\<close>

definition store_interaction ::
  "env \<Rightarrow> string \<Rightarrow> string \<Rightarrow> string \<Rightarrow> real \<Rightarrow> state \<Rightarrow> (string + unit) \<times> state" where
  "store_interaction e request_type prompt_text response_text seconds s =
     (let n = db_writes s; s1 = s\<lparr>db_writes := n + 1\<rparr>
      in case db_fault e n of
           Some msg \<Rightarrow> (Inl msg, s1)
         | None \<Rightarrow>
             (Inr (), s1\<lparr>interactions := interactions s1 @
                           [(clock e n, request_type, prompt_text, response_text, seconds)]\<rparr>))"

text \<open>
  The \<^verbatim>\<open>try\<close> body sends the request and stores the interaction; the handler catches
  whatever either of them raised (\<open>msg\<close> is the text of the exception), stores the
  error text and returns it. An exception of the handler's own write leaves the function.
\<close>

definition api_error :: "env \<Rightarrow> string \<Rightarrow> string \<Rightarrow> string \<Rightarrow> state \<Rightarrow> (error + string) \<times> state" where
  "api_error e request_type prompt_text msg s =
     (let error_msg = ''API Error: '' @ msg
      in case store_interaction e request_type prompt_text error_msg (elapsed e (db_writes s)) s of
           (Inl db_msg, s') \<Rightarrow> (Inl (DatabaseError db_msg), s')
         | (Inr u, s') \<Rightarrow> (Inr error_msg, s'))"

definition consult_api_gemini :: "env \<Rightarrow> string \<Rightarrow> string \<Rightarrow> state \<Rightarrow> (error + string) \<times> state" where
  "consult_api_gemini e prompt_text request_type s =
     (let s1 = s\<lparr>sent := sent s @ [prompt_text]\<rparr>
      in case generate_content e (length (sent s)) prompt_text of
           Inl msg \<Rightarrow> api_error e request_type prompt_text msg s1
         | Inr response_text \<Rightarrow>
             (case store_interaction e request_type prompt_text response_text
                     (elapsed e (db_writes s1)) s1 of
                (Inl db_msg, s2) \<Rightarrow> api_error e request_type prompt_text db_msg s2
              | (Inr u, s2) \<Rightarrow> (Inr response_text, s2)))"

text \<open>
  The text that the \<open>n\<close>-th request returns to the caller when the write of the
  interaction succeeds: the response, or the error text of a request that raised.
\<close>

definition returned_text :: "env \<Rightarrow> nat \<Rightarrow> string \<Rightarrow> string" where
  "returned_text e n prompt_text =
     (case generate_content e n prompt_text of
        Inl msg \<Rightarrow> ''API Error: '' @ msg
      | Inr response_text \<Rightarrow> response_text)"

text \<open>The state after a request whose interaction was stored at the first attempt.\<close>

definition logged :: "env \<Rightarrow> string \<Rightarrow> string \<Rightarrow> state \<Rightarrow> state" where
  "logged e prompt_text request_type s =
     s\<lparr>sent := sent s @ [prompt_text], db_writes := db_writes s + 1,
       interactions := interactions s @
         [(clock e (db_writes s), request_type, prompt_text,
           returned_text e (length (sent s)) prompt_text, elapsed e (db_writes s))]\<rparr>"

definition nl :: string where
  "nl = [CHR 0x0A]"

definition dq :: string where
  "dq = [CHR 0x22]"

definition sq :: string where
  "sq = [CHR 0x27]"

definition requirements_prompt :: "string \<Rightarrow> string" where
  "requirements_prompt type_produit =
     nl @ ''    For an artistic product of type '' @ sq @ type_produit @ sq @
       '', which of the following characteristics are generally necessary?'' @
     nl @ ''    Answer ONLY in the form of a Python dictionary with the following keys and 'true' or 'false' values:'' @
     nl @ ''    {'' @
     nl @ ''        '' @ dq @ ''needs_height'' @ dq @ '': true/false,'' @
     nl @ ''        '' @ dq @ ''needs_weight'' @ dq @ '': true/false,'' @
     nl @ ''        '' @ dq @ ''needs_resolution'' @ dq @ '': true/false,'' @
     nl @ ''        '' @ dq @ ''needs_duration'' @ dq @ '': true/false,'' @
     nl @ ''        '' @ dq @ ''is_2d'' @ dq @ '': true/false,'' @
     nl @ ''        '' @ dq @ ''is_3d'' @ dq @ '': true/false,'' @
     nl @ ''        '' @ dq @ ''is_digital'' @ dq @ '': true/false'' @
     nl @ ''    }'' @
     nl @ ''    ''"

definition get_product_type_requirements :: "env \<Rightarrow> string \<Rightarrow> state \<Rightarrow> (error + string) \<times> state" where
  "get_product_type_requirements e type_produit s =
     consult_api_gemini e (requirements_prompt type_produit) ''product_requirements'' s"

definition known_artist_prompt :: "string \<Rightarrow> string" where
  "known_artist_prompt artiste =
     ''Is '' @ artiste @ '' a known/recognized artist? Answer ONLY with 'yes' or 'no'.''"

definition check_known_artist :: "env \<Rightarrow> string \<Rightarrow> state \<Rightarrow> (error + bool) \<times> state" where
  "check_known_artist e artiste s =
     then_call (consult_api_gemini e (known_artist_prompt artiste) ''artist_recognition'' s)
       (\<lambda>response_text s'. (Inr (str_in ''yes'' (lower response_text)), s'))"

definition artist_price_prompt :: "string \<Rightarrow> string \<Rightarrow> string" where
  "artist_price_prompt artiste type_produit =
     ''What is the average price or typical price range for '' @ type_produit @
     ''s by artist '' @ artiste @
     '' based on previous sales? Give ONLY a number or brief range in euros.''"

definition get_artist_price :: "env \<Rightarrow> string \<Rightarrow> string \<Rightarrow> state \<Rightarrow> (error + real option) \<times> state" where
  "get_artist_price e artiste type_produit s =
     then_call
       (consult_api_gemini e (artist_price_prompt artiste type_produit) ''artist_price_check'' s)
       (\<lambda>response_text s'. (Inr (artist_price_of response_text), s'))"

definition starting_price_prompt ::
  "env \<Rightarrow> string \<Rightarrow> string \<Rightarrow> string \<Rightarrow> string list \<Rightarrow> string \<Rightarrow> string option \<Rightarrow>
   pyval option \<Rightarrow> pyval option \<Rightarrow> bool \<Rightarrow> string" where
  "starting_price_prompt e type_produit artiste marche materials dims poids
       resolution_val duration_val digital =
     (let additional_details =
            (case resolution_val of None \<Rightarrow> []
             | Some r \<Rightarrow> if truthy (Some r) then [''resolution: '' @ format_val e r] else []) @
            (case duration_val of None \<Rightarrow> []
             | Some d \<Rightarrow> if truthy (Some d) then [''duration: '' @ format_val e d @ '' minutes''] else []) @
            (case poids of None \<Rightarrow> [] | Some w \<Rightarrow> if w \<noteq> [] then [''weight: '' @ w] else []) @
            (if digital then [''digital format''] else []);
          details_text = (if additional_details \<noteq> [] then join '', '' additional_details else [])
      in nl @ ''    As artist '' @ artiste @ '' selling a '' @ type_produit @ '' in the '' @ marche @
           '' market, with materials: '' @ join '', '' materials @ '','' @
         nl @ ''    dimensions: '' @ dims @
           (if details_text \<noteq> [] then '', '' @ details_text else []) @ ''.'' @
         nl @ ''    Give ONLY a recommended price range in euros, as a single number or a brief range (e.g., '1200-1500').'' @
         nl @ ''    '')"

definition get_starting_price_from_gpt ::
  "env \<Rightarrow> string \<Rightarrow> string \<Rightarrow> string \<Rightarrow> string list \<Rightarrow> string \<Rightarrow> string option \<Rightarrow>
   pyval option \<Rightarrow> pyval option \<Rightarrow> bool \<Rightarrow> state \<Rightarrow> (error + string) \<times> state" where
  "get_starting_price_from_gpt e type_produit artiste marche materials dims poids
       resolution_val duration_val digital s =
     consult_api_gemini e
       (starting_price_prompt e type_produit artiste marche materials dims poids
          resolution_val duration_val digital)
       ''price_recommendation'' s"

section \<open>The data file (data_utils.py)\<close>

definition save_to_file :: "env \<Rightarrow> pyval list \<Rightarrow> state \<Rightarrow> (error + bool) \<times> state" where
  "save_to_file e data s =
     (let n = file_writes s; s1 = s\<lparr>file_writes := n + 1\<rparr>
      in case file_fault e n of
           Some msg \<Rightarrow> (Inl (OSError msg), s1)
         | None \<Rightarrow> (Inr True, s1\<lparr>ledger := ledger s1 @ [data]\<rparr>))"

section \<open>The price computation (pricing.py)\<close>

record price_result =
  prix :: real
  demande_marche :: int
  dimensions :: string
  materiaux :: string
  artiste_connu :: bool
  gemini_price :: string
  height :: pyval
  weight :: pyval

text \<open>Lines 43-77: the dimension factor, the formatted dimensions and the weight text.\<close>

definition digital_factor :: "real \<Rightarrow> real" where
  "digital_factor pixel_area =
     (if pixel_area > 0 then
        (if pixel_area < 1000000 then 0.8
         else if pixel_area < 4000000 then 1.0
         else if pixel_area < 8000000 then 1.2
         else 1.5)
      else 1.0)"

definition dimension_block ::
  "env \<Rightarrow> (string \<rightharpoonup> pyval) \<Rightarrow> bool \<Rightarrow> bool \<Rightarrow> pyval \<Rightarrow> pyval \<Rightarrow>
   error + real \<times> string \<times> string option" where
  "dimension_block e values digital is_3d height_val weight_val =
     and_then
       (if digital then
          and_then (subscript values ''longueur'') (\<lambda>longueur.
          and_then (subscript values ''largeur'') (\<lambda>largeur.
          and_then (py_mul longueur largeur) (\<lambda>pixel_area.
            Inr (digital_factor pixel_area,
                 if pixel_area > 0
                 then format_val e longueur @ ''px x '' @ format_val e largeur @ ''px''
                 else ''Unknown''))))
        else if is_3d then
          and_then (subscript values ''longueur'') (\<lambda>longueur.
          and_then (subscript values ''largeur'') (\<lambda>largeur.
          and_then (py_mul longueur largeur) (\<lambda>surface.
          and_then (py_mul (Num surface) height_val) (\<lambda>volume.
          and_then (num weight_val) (\<lambda>w.
            let dimension_factor = max 1.0 (volume / 1000);
                weight_factor = max 1.0 (w / 5)
            in Inr ((dimension_factor + weight_factor) / 2,
                    format_val e longueur @ ''cm x '' @ format_val e largeur @ ''cm x '' @
                    format_val e height_val @ ''cm''))))))
        else
          and_then (subscript values ''longueur'') (\<lambda>longueur.
          and_then (subscript values ''largeur'') (\<lambda>largeur.
          and_then (py_mul longueur largeur) (\<lambda>surface.
            Inr (max 1.0 (surface / 100),
                 format_val e longueur @ ''cm x '' @ format_val e largeur @ ''cm'')))))
       (\<lambda>(dimension_factor, dims).
          and_then (num weight_val) (\<lambda>w.
            Inr (dimension_factor, dims,
                 if w > 0 then Some (format_val e weight_val @ '' kg'') else None)))"

text \<open>Lines 83-103: the factors of the optional resolution and duration entries.\<close>

definition resolution_tier :: "pyval \<Rightarrow> real" where
  "resolution_tier resolution_value =
     (case resolution_value of
        Num x \<Rightarrow> 1.0
      | Str r \<Rightarrow>
          if str_in ''4K'' r \<or> str_in ''8K'' r then 1.4
          else if str_in ''2K'' r \<or> str_in ''Full HD'' r then 1.2
          else if str_in ''HD'' r then 1.1
          else 1.0)"

definition additional_factors_of :: "(string \<rightharpoonup> pyval) \<Rightarrow> error + real" where
  "additional_factors_of values =
     (let additional_factors =
            (case values ''resolution'' of
               None \<Rightarrow> 1.0
             | Some resolution_value \<Rightarrow> 1.0 * resolution_tier resolution_value)
      in case values ''duration'' of
           None \<Rightarrow> Inr additional_factors
         | Some d \<Rightarrow>
             and_then (num d) (\<lambda>duration_val.
               if duration_val > 0
               then Inr (additional_factors * min 3.0 (1 + duration_val / 60))
               else Inr additional_factors))"

text \<open>
  Lines 79-119: the price. \<open>reference_price\<close> is truthy when it is a number other
  than zero.
\<close>

definition unadjusted_price ::
  "(string \<rightharpoonup> pyval) \<Rightarrow> string list \<Rightarrow> int \<Rightarrow> real \<Rightarrow> real \<Rightarrow> error + real" where
  "unadjusted_price values materiaux_selectionnes market_demand reputation_bonus dimension_factor =
     and_then (subscript values ''materiaux'') (\<lambda>m.
     and_then (subscript values ''livraison'') (\<lambda>l.
     and_then (py_add m l) (\<lambda>ml.
     and_then (subscript values ''pub'') (\<lambda>p.
     and_then (py_add ml p) (\<lambda>base_cost.
     and_then (subscript values ''temps'') (\<lambda>t.
     let time_cost = py_times_15 t
     in and_then (additional_factors_of values) (\<lambda>additional_factors.
        let complexity = 1.0 + real (length materiaux_selectionnes) * 0.1;
            market_rarity = 0.8 + 0.05 * real_of_int market_demand
        in and_then (py_add base_cost time_cost) (\<lambda>bt.
           and_then (py_add bt (Num reputation_bonus)) (\<lambda>total.
           and_then (num total) (\<lambda>total.
             Inr (total * complexity * market_rarity * dimension_factor *
                  additional_factors)))))))))))"

definition price_block ::
  "(string \<rightharpoonup> pyval) \<Rightarrow> string list \<Rightarrow> int \<Rightarrow> bool \<Rightarrow> real option \<Rightarrow> bool \<Rightarrow> real \<Rightarrow>
   error + real" where
  "price_block values materiaux_selectionnes market_demand is_known reference_price digital
       dimension_factor =
     (let reputation_bonus = (if is_known then 50 else 0)
      in and_then
           (unadjusted_price values materiaux_selectionnes market_demand reputation_bonus
              dimension_factor)
           (\<lambda>price.
              let price = (case reference_price of
                             None \<Rightarrow> price
                           | Some r \<Rightarrow> if is_known \<and> r \<noteq> 0 then (price + r) / 2 else price)
              in if digital \<and> values ''resolution'' \<noteq> None
                 then and_then (num (get_default values ''resolution_factor'' (Num 1.0)))
                        (\<lambda>resolution_factor. Inr (price * (1.0 + 0.1 * resolution_factor)))
                 else Inr price))"

definition format_save_data ::
  "string \<Rightarrow> string \<Rightarrow> string \<Rightarrow> string \<Rightarrow> string \<Rightarrow> pyval \<Rightarrow> pyval \<Rightarrow> pyval \<Rightarrow> pyval \<Rightarrow>
   pyval \<Rightarrow> pyval \<Rightarrow> pyval \<Rightarrow> pyval \<Rightarrow> string \<Rightarrow> int \<Rightarrow> string \<Rightarrow> pyval list" where
  "format_save_data now artist market product_type materials_text len wid hgt wgt
       material_cost shipping_cost ad_cost time_spent final_price market_demand ai_price =
     [Str now, Str artist, Str market, Str product_type, Str materials_text,
      len, wid, hgt, wgt, material_cost, shipping_cost, ad_cost,
      time_spent, Str final_price, Num (real_of_int market_demand), Str ai_price]"

definition data_row_of ::
  "env \<Rightarrow> (string \<rightharpoonup> pyval) \<Rightarrow> string \<Rightarrow> string \<Rightarrow> string \<Rightarrow> string \<Rightarrow> string \<Rightarrow> pyval \<Rightarrow>
   pyval \<Rightarrow> real \<Rightarrow> int \<Rightarrow> string \<Rightarrow> error + pyval list" where
  "data_row_of e values now artiste marche type_produit materials_text hgt wgt price
       market_demand gemini_price_response =
     and_then (subscript values ''longueur'') (\<lambda>longueur.
     and_then (subscript values ''largeur'') (\<lambda>largeur.
     and_then (subscript values ''materiaux'') (\<lambda>m.
     and_then (subscript values ''livraison'') (\<lambda>l.
     and_then (subscript values ''pub'') (\<lambda>p.
     and_then (subscript values ''temps'') (\<lambda>t.
       Inr (format_save_data now artiste marche type_produit materials_text
              longueur largeur hgt wgt m l p t (format_2f e price) market_demand
              gemini_price_response)))))))"

definition prompt_market :: "string \<Rightarrow> string \<Rightarrow> string" where
  "prompt_market type_produit marche =
     ''Rate from 1 to 10 the demand for '' @ type_produit @ '' in the '' @ marche @
     '' market. Number only.''"

definition calculate_price ::
  "env \<Rightarrow> (string \<rightharpoonup> pyval) \<Rightarrow> string \<Rightarrow> string \<Rightarrow> string \<Rightarrow> string list \<Rightarrow> bool \<Rightarrow> state \<Rightarrow>
   (error + price_result) \<times> state" where
  "calculate_price e values type_produit artiste marche materiaux_selectionnes is_3d s =
     then_call (get_product_type_requirements e type_produit s) (\<lambda>requirements_text s.
     let requirements = requirements_of_str requirements_text;
         digital = get_flag requirements ''is_digital''
     in then_call
          (consult_api_gemini e (prompt_market type_produit marche) ''general'' s)
          (\<lambda>market_result s.
     let market_demand = market_demand_of market_result
     in then_call (check_known_artist e artiste s) (\<lambda>is_known s.
        then_call (if is_known then get_artist_price e artiste type_produit s else (Inr None, s))
          (\<lambda>reference_price s.
     let height_val = (if is_3d \<or> get_flag requirements ''needs_height''
                       then get_default values ''hauteur'' (Num 0) else Num 0);
         weight_val = (if is_3d \<or> get_flag requirements ''needs_weight''
                       then get_default values ''poids'' (Num 0) else Num 0)
     in case and_then (dimension_block e values digital is_3d height_val weight_val)
               (\<lambda>(dimension_factor, dims, weight_info).
                  and_then (price_block values materiaux_selectionnes market_demand is_known
                              reference_price digital dimension_factor)
                    (\<lambda>price. Inr (price, dims, weight_info))) of
          Inl err \<Rightarrow> (Inl err, s)
        | Inr (price, dims, weight_info) \<Rightarrow>
            then_call
              (get_starting_price_from_gpt e type_produit artiste marche materiaux_selectionnes
                 dims weight_info (values ''resolution'') (values ''duration'') digital s)
              (\<lambda>gemini_price_response s.
     let materials_text = (if materiaux_selectionnes \<noteq> [] then join '', '' materiaux_selectionnes
                           else ''None'');
         result = \<lparr> prix = price, demande_marche = market_demand, dimensions = dims,
                    materiaux = materials_text, artiste_connu = is_known,
                    gemini_price = gemini_price_response,
                    height = (if is_3d then height_val else Str []),
                    weight = (if is_3d then weight_val else Str []) \<rparr>;
         now = clock e (file_writes s)
     in case data_row_of e values now artiste marche type_produit materials_text
               (if is_3d then height_val else Str []) (if is_3d then weight_val else Str [])
               price market_demand gemini_price_response of
          Inl err \<Rightarrow> (Inl err, s)
        | Inr data_row \<Rightarrow>
            then_call (save_to_file e data_row s) (\<lambda>saved s. (Inr result, s)))))))"

text \<open>An outcome without a result that left the data file as it was in \<open>s\<close>.\<close>

definition lost :: "state \<Rightarrow> (error + price_result) \<times> state \<Rightarrow> bool" where
  "lost s out = ((\<exists>err. fst out = Inl err) \<and> ledger (snd out) = ledger s)"

text \<open>
  What \<open>calculate_price\<close>, started in state \<open>s\<close>, reads from the oracle when every
  interaction is stored at the first attempt: its requests are the next four or five
  after those already sent.
\<close>

definition judged_requirements :: "env \<Rightarrow> state \<Rightarrow> string \<Rightarrow> (string \<rightharpoonup> bool)" where
  "judged_requirements e s type_produit =
     requirements_of_str (returned_text e (length (sent s)) (requirements_prompt type_produit))"

definition judged_digital :: "env \<Rightarrow> state \<Rightarrow> string \<Rightarrow> bool" where
  "judged_digital e s type_produit = get_flag (judged_requirements e s type_produit) ''is_digital''"

definition rated_demand :: "env \<Rightarrow> state \<Rightarrow> string \<Rightarrow> string \<Rightarrow> int" where
  "rated_demand e s type_produit marche =
     market_demand_of (returned_text e (length (sent s) + 1) (prompt_market type_produit marche))"

definition judged_known :: "env \<Rightarrow> state \<Rightarrow> string \<Rightarrow> bool" where
  "judged_known e s artiste =
     str_in ''yes'' (lower (returned_text e (length (sent s) + 2) (known_artist_prompt artiste)))"

definition obtained_reference :: "env \<Rightarrow> state \<Rightarrow> string \<Rightarrow> string \<Rightarrow> real option" where
  "obtained_reference e s artiste type_produit =
     (if judged_known e s artiste
      then artist_price_of
             (returned_text e (length (sent s) + 3) (artist_price_prompt artiste type_produit))
      else None)"

definition height_used :: "env \<Rightarrow> state \<Rightarrow> string \<Rightarrow> (string \<rightharpoonup> pyval) \<Rightarrow> bool \<Rightarrow> pyval" where
  "height_used e s type_produit values is_3d =
     (if is_3d \<or> get_flag (judged_requirements e s type_produit) ''needs_height''
      then get_default values ''hauteur'' (Num 0) else Num 0)"

definition weight_used :: "env \<Rightarrow> state \<Rightarrow> string \<Rightarrow> (string \<rightharpoonup> pyval) \<Rightarrow> bool \<Rightarrow> pyval" where
  "weight_used e s type_produit values is_3d =
     (if is_3d \<or> get_flag (judged_requirements e s type_produit) ''needs_weight''
      then get_default values ''poids'' (Num 0) else Num 0)"

section \<open>The form's price action (ui.py, \<^verbatim>\<open>ArtPricingApp.calculate_price\<close>)\<close>

text \<open>
  What the action reads from the widgets: the texts of the artist, market and custom type
  entries, the selected product type, the materials returned by
  \<^verbatim>\<open>get_all_materials\<close>, the texts of the numeric entries by key, and whether the height
  frame is mapped. What it shows: the result, the text of a \<^verbatim>\<open>ValueError\<close>, or the
  exception of any other failure.
\<close>

record form =
  entry_artist :: string
  entry_market :: string
  var_type :: string
  entry_other_type :: string
  selected_materials :: "string list"
  entries :: "string \<rightharpoonup> string"
  height_frame_mapped :: bool

datatype shown = Results price_result | ValueErrorShown string | ErrorShown error

definition entry_values :: "env \<Rightarrow> (string \<rightharpoonup> string) \<Rightarrow> (string \<rightharpoonup> pyval)" where
  "entry_values e ents =
     (\<lambda>key. case ents key of
               None \<Rightarrow> None
             | Some t \<Rightarrow> Some (Num (case parse_float e t of Some x \<Rightarrow> x | None \<Rightarrow> 0)))"

definition ui_calculate_price :: "env \<Rightarrow> form \<Rightarrow> state \<Rightarrow> shown \<times> state" where
  "ui_calculate_price e f s =
     (let values = entry_values e (entries f);
          materials = selected_materials f;
          product_type = (if var_type f = ''Other'' then strip (entry_other_type f) else var_type f);
          artist = strip (entry_artist f);
          market = strip (entry_market f)
      in if artist = [] then (ValueErrorShown ''Please enter an artist name'', s)
         else if market = [] then (ValueErrorShown ''Please enter a target market'', s)
         else if product_type = [] then
           (ValueErrorShown ''Please select or specify a product type'', s)
         else if materials = [] then (ValueErrorShown ''Please select at least one material'', s)
         else
           let is_3d = (product_type = ''Sculpture'' \<or> product_type = ''Installation'' \<or>
                        height_frame_mapped f)
           in case calculate_price e values product_type artist market materials is_3d s of
                (Inl err, s') \<Rightarrow> (ErrorShown err, s')
              | (Inr result, s') \<Rightarrow> (Results result, s'))"

section \<open>Detecting the end of typing (ui.py, lines 1252-1302)\<close>

text \<open>
  The fields of the application that the two handlers use, with the part of Tk they call:
  the text of the custom type entry, the queue of pending \<^verbatim>\<open>after\<close> callbacks (identifier,
  due time in milliseconds, the value captured by the callback), the next free identifier
  and the current time. \<open>world\<close> is the state of the oracle client. Handlers take no
  time; a callback runs at its due time unless it was cancelled before.
\<close>

record app =
  other_type_text :: string
  input_timer :: "nat option"
  last_other_value :: string
  after_queue :: "(nat \<times> nat \<times> string) list"
  next_id :: nat
  now_ms :: nat
  world :: state

definition typing_pause_interval :: nat where
  "typing_pause_interval = 1000"

definition after_cancel :: "nat \<Rightarrow> app \<Rightarrow> app" where
  "after_cancel i a = a\<lparr>after_queue := filter (\<lambda>x. fst x \<noteq> i) (after_queue a)\<rparr>"

definition after :: "nat \<Rightarrow> string \<Rightarrow> app \<Rightarrow> nat \<times> app" where
  "after ms v a =
     (next_id a,
      a\<lparr>after_queue := after_queue a @ [(next_id a, now_ms a + ms, v)],
        next_id := next_id a + 1\<rparr>)"

definition start_input_check_timer :: "app \<Rightarrow> app" where
  "start_input_check_timer a =
     (let a1 = (case input_timer a of None \<Rightarrow> a | Some i \<Rightarrow> after_cancel i a);
          current_value = strip (other_type_text a1)
      in if current_value = [] then a1
         else case after typing_pause_interval current_value a1 of
                (i, a2) \<Rightarrow> a2\<lparr>input_timer := Some i\<rparr>)"

text \<open>
  \<^verbatim>\<open>update_additional_costs_for_other_type\<close>: one requirements query for the text now in
  the entry; whatever the query raises is caught and shown. The widgets it rebuilds are
  not part of the state.
\<close>

definition update_additional_costs_for_other_type :: "env \<Rightarrow> app \<Rightarrow> app" where
  "update_additional_costs_for_other_type e a =
     (let custom_type = strip (other_type_text a)
      in if custom_type = [] then a
         else a\<lparr>world := snd (get_product_type_requirements e custom_type (world a))\<rparr>)"

definition finish_typing :: "env \<Rightarrow> string \<Rightarrow> app \<Rightarrow> app" where
  "finish_typing e v a =
     (let current_value = strip (other_type_text a)
      in if v = current_value
         then update_additional_costs_for_other_type e (a\<lparr>last_other_value := v\<rparr>)
         else start_input_check_timer a)"

text \<open>The event loop: the pending callback that is due first, the first of them if several are.\<close>

fun earliest :: "(nat \<times> nat \<times> string) list \<Rightarrow> (nat \<times> nat \<times> string) option" where
  "earliest [] = None"
| "earliest (x # xs) =
     (case earliest xs of
        None \<Rightarrow> Some x
      | Some y \<Rightarrow> if fst (snd x) \<le> fst (snd y) then Some x else Some y)"

definition overdue :: "nat \<Rightarrow> (nat \<times> nat \<times> string) list \<Rightarrow> nat" where
  "overdue t q = sum_list (map (\<lambda>x. Suc t - fst (snd x)) q)"

definition fire :: "env \<Rightarrow> nat \<times> nat \<times> string \<Rightarrow> app \<Rightarrow> app" where
  "fire e x a =
     (case x of (i, due, v) \<Rightarrow>
        finish_typing e v
          (a\<lparr>after_queue := filter (\<lambda>x. fst x \<noteq> i) (after_queue a),
             now_ms := max (now_ms a) due\<rparr>))"

text \<open>
  Running the event loop up to time \<open>t\<close>: every callback due by then runs, in the order
  of the due times. A callback that re-arms the timer does so for a later time, so the
  loop ends.
\<close>

function run_until :: "env \<Rightarrow> nat \<Rightarrow> app \<Rightarrow> app" where
  "run_until e t a =
     (case earliest (after_queue a) of
        None \<Rightarrow> a\<lparr>now_ms := max (now_ms a) t\<rparr>
      | Some x \<Rightarrow>
          if fst (snd x) \<le> t then run_until e t (fire e x a)
          else a\<lparr>now_ms := max (now_ms a) t\<rparr>)"
  by pat_completeness auto
termination
proof (relation "measure (\<lambda>(e, t, a). overdue t (after_queue a))")
  show "wf (measure (\<lambda>(e, t, a). overdue t (after_queue a)))"
    by simp
next
  fix e :: env and t :: nat and a :: app and x :: "nat \<times> nat \<times> string"
  assume ear: "earliest (after_queue a) = Some x" and due: "fst (snd x) \<le> t"
  obtain i d v where x: "x = (i, d, v)"
    by (cases x)
  have mem: "y \<in> set q" if "earliest q = Some y" for q y
    using that by (induction q arbitrary: y) (auto split: option.splits if_splits)
  have filter_le: "overdue t (filter P q) \<le> overdue t q" for P q
    by (induction q) (auto simp: overdue_def)
  have remove: "overdue t (filter (\<lambda>x. fst x \<noteq> i) q) + (Suc t - d) \<le> overdue t q"
    if "(i, d, v) \<in> set q" for q
    using that
  proof (induction q)
    case Nil
    then show ?case by simp
  next
    case (Cons y q)
    show ?case
    proof (cases "y = (i, d, v)")
      case True
      then show ?thesis
        using filter_le [of "\<lambda>x. fst x \<noteq> i" q] by (simp add: overdue_def)
    next
      case False
      with Cons have "overdue t (filter (\<lambda>x. fst x \<noteq> i) q) + (Suc t - d) \<le> overdue t q"
        by simp
      then show ?thesis
        by (simp add: overdue_def)
    qed
  qed
  have start: "overdue t (after_queue (start_input_check_timer b))
                 \<le> overdue t (after_queue b) + (Suc t - (now_ms b + typing_pause_interval))" for b
    using filter_le [of _ "after_queue b"]
    by (auto simp: start_input_check_timer_def after_cancel_def after_def Let_def overdue_def
        trans_le_add1 split: option.splits prod.splits)
  have finish: "overdue t (after_queue (finish_typing e v b))
                 \<le> overdue t (after_queue b) + (Suc t - (now_ms b + typing_pause_interval))" for b
    using start [of b]
    by (auto simp: finish_typing_def update_additional_costs_for_other_type_def Let_def)
  let ?b = "a\<lparr>after_queue := filter (\<lambda>x. fst x \<noteq> i) (after_queue a), now_ms := max (now_ms a) d\<rparr>"
  have "overdue t (after_queue (fire e x a))
          \<le> overdue t (after_queue ?b) + (Suc t - (now_ms ?b + typing_pause_interval))"
    unfolding fire_def x using finish [of ?b] by simp
  also have "\<dots> < overdue t (after_queue ?b) + (Suc t - d)"
    using due x by (simp add: typing_pause_interval_def)
  also have "\<dots> \<le> overdue t (after_queue a)"
    using remove [of "after_queue a"] mem [OF ear] x by simp
  finally show "((e, t, fire e x a), (e, t, a)) \<in> measure (\<lambda>(e, t, a). overdue t (after_queue a))"
    by simp
qed

declare run_until.simps [simp del]

text \<open>
  A key release at time \<open>t\<close> that leaves the text \<open>x\<close> in the entry: the callbacks due by
  \<open>t\<close> have run, then the handler bound to the key release runs.
\<close>

definition key_release :: "env \<Rightarrow> nat \<times> string \<Rightarrow> app \<Rightarrow> app" where
  "key_release e ev a =
     (case ev of (t, x) \<Rightarrow> start_input_check_timer ((run_until e t a)\<lparr>other_type_text := x\<rparr>))"

fun run :: "env \<Rightarrow> (nat \<times> string) list \<Rightarrow> app \<Rightarrow> app" where
  "run e [] a = a"
| "run e (ev # evs) a = run e evs (key_release e ev a)"

text \<open>
  The specification's side: the texts at which the input paused, that is, the texts that
  are not empty and were followed by no event for the interval (up to the time \<open>T\<close>
  until which the application is observed).
\<close>

fun settled :: "nat \<Rightarrow> (nat \<times> string) list \<Rightarrow> string list" where
  "settled T [] = []"
| "settled T (ev # evs) =
     (if strip (snd ev) \<noteq> [] \<and>
         fst ev + typing_pause_interval \<le> (case evs of [] \<Rightarrow> T | next_ev # rest \<Rightarrow> fst next_ev)
      then [strip (snd ev)] else []) @ settled T evs"

text \<open>
  The state in which the timer is armed: the one pending callback is the one the
  application remembers, it is due at \<open>d\<close>, and it captured the text of the entry,
  which is not empty.
\<close>

definition armed :: "app \<Rightarrow> nat \<Rightarrow> bool" where
  "armed a d =
     (\<exists>i. after_queue a = [(i, d, strip (other_type_text a))] \<and> input_timer a = Some i \<and>
          strip (other_type_text a) \<noteq> [])"

text \<open>Events that follow one another within less than the interval.\<close>

fun quick :: "(nat \<times> string) list \<Rightarrow> bool" where
  "quick [] = True"
| "quick [ev] = True"
| "quick (ev # next_ev # evs) =
     (fst next_ev < fst ev + typing_pause_interval \<and> quick (next_ev # evs))"

section \<open>Scenarios\<close>

text \<open>
  An environment that answers the requests from a script, in order; no database write
  fails, and the append to the data file fails with the given text, if any.
\<close>

definition scripted :: "(string + string) list \<Rightarrow> string option \<Rightarrow> env" where
  "scripted answers file_error =
     \<lparr> generate_content = (\<lambda>n p. if n < length answers then answers ! n else Inr []),
       elapsed = (\<lambda>n. 0),
       clock = (\<lambda>n. ''2025-01-01 12:00:00''),
       db_fault = (\<lambda>n. None),
       file_fault = (\<lambda>n. file_error),
       format_float = (\<lambda>x. ''#''),
       format_2f = (\<lambda>x. ''#.##''),
       parse_float = (\<lambda>t. None) \<rparr>"

definition fresh :: state where
  "fresh = \<lparr> sent = [], db_writes = 0, file_writes = 0, interactions = [], ledger = [] \<rparr>"

definition painting_values :: "string \<rightharpoonup> pyval" where
  "painting_values =
     [''longueur'' \<mapsto> Num 50, ''largeur'' \<mapsto> Num 70, ''materiaux'' \<mapsto> Num 20,
      ''livraison'' \<mapsto> Num 10, ''pub'' \<mapsto> Num 5, ''temps'' \<mapsto> Num 8]"

definition painting_env :: env where
  "painting_env = scripted [Inr ''a physical flat work'', Inr ''7'', Inr ''no'', Inr ''1200-1500''] None"

text \<open>
  The service refuses every request, with the message it gives for the placeholder API
  key of \<^verbatim>\<open>config.py\<close>.
\<close>

definition invalid_key_env :: env where
  "invalid_key_env =
     scripted (replicate 5 (Inl ''400 API key not valid. Please pass a valid API key.'')) None"

text \<open>The data file cannot be opened for appending.\<close>

definition locked_file_env :: env where
  "locked_file_env =
     scripted [Inr ''a physical flat work'', Inr ''7'', Inr ''no'', Inr ''1200-1500'']
       (Some ''[Errno 13] Permission denied'')"

text \<open>
  A digital print by a known artist whose works sell for 1000; the form holds a
  resolution entry, which it stores as the number 0.
\<close>

definition print_env :: env where
  "print_env =
     scripted [Inr ''digital'', Inr ''5'', Inr ''yes'', Inr ''1000'', Inr ''900-1100''] None"

definition print_values :: "string \<rightharpoonup> pyval" where
  "print_values = painting_values(''resolution'' \<mapsto> Num 0)"

definition no_length_values :: "string \<rightharpoonup> pyval" where
  "no_length_values = painting_values(''longueur'' \<mapsto> Num 0)"

definition megapixel_values :: "string \<rightharpoonup> pyval" where
  "megapixel_values = painting_values(''longueur'' \<mapsto> Num 1000, ''largeur'' \<mapsto> Num 1000)"

definition nameless_form :: form where
  "nameless_form =
     \<lparr> entry_artist = ''  '', entry_market = ''Lisbon'', var_type = ''Painting'',
       entry_other_type = [], selected_materials = [''Canvas'', ''Oil''],
       entries = Map.empty, height_frame_mapped = False \<rparr>"

text \<open>
  The application after start, and a user who types "vid", pauses, and completes the
  word "video".
\<close>

definition started :: app where
  "started =
     \<lparr> other_type_text = [], input_timer = None, last_other_value = [], after_queue = [],
       next_id = 0, now_ms = 0, world = fresh \<rparr>"

definition typing_video :: "(nat \<times> string) list" where
  "typing_video = [(0, ''v''), (300, ''vi''), (600, ''vid''), (2000, ''vide''), (2200, ''video'')]"

section \<open>Evaluating characters\<close>

lemma char_eq_char_of: "c = char_of n \<longleftrightarrow> take_bit 8 n = (of_char c :: nat)"
  using char_of_eq_iff [of n c] by auto

lemmas char_eval = lower_def lower_char_def is_digit_def is_space_def char_of_eq_iff char_eq_char_of

section \<open>The oracle client and the price computation when every interaction is stored\<close>

lemma consult_api_gemini_ok:
  "db_fault e (db_writes s) = None \<Longrightarrow>
   consult_api_gemini e p k s = (Inr (returned_text e (length (sent s)) p), logged e p k s)"
  by (simp add: consult_api_gemini_def api_error_def returned_text_def store_interaction_def
      logged_def Let_def split: sum.splits)

lemma logged_simps:
  "sent (logged e p k s) = sent s @ [p]"
  "db_writes (logged e p k s) = db_writes s + 1"
  "file_writes (logged e p k s) = file_writes s"
  "ledger (logged e p k s) = ledger s"
  "interactions (logged e p k s) = interactions s @
     [(clock e (db_writes s), k, p, returned_text e (length (sent s)) p, elapsed e (db_writes s))]"
  by (simp_all add: logged_def)

lemma then_call_consult:
  "\<forall>n. db_fault e n = None \<Longrightarrow>
   then_call (consult_api_gemini e p k s) f = f (returned_text e (length (sent s)) p) (logged e p k s)"
  by (simp add: consult_api_gemini_ok then_call_def)

lemma then_call_Inr: "then_call (Inr x, s) f = f x s"
  by (simp add: then_call_def)

lemma calculate_price_unfold:
  assumes db: "\<forall>n. db_fault e n = None"
  shows "calculate_price e vals type_produit artiste marche mats is_3d s =
     (let s3 = logged e (known_artist_prompt artiste) ''artist_recognition''
                 (logged e (prompt_market type_produit marche) ''general''
                    (logged e (requirements_prompt type_produit) ''product_requirements'' s));
          digital = judged_digital e s type_produit;
          market_demand = rated_demand e s type_produit marche;
          is_known = judged_known e s artiste;
          s4 = (if is_known
                then logged e (artist_price_prompt artiste type_produit) ''artist_price_check'' s3
                else s3);
          height_val = height_used e s type_produit vals is_3d;
          weight_val = weight_used e s type_produit vals is_3d
      in case and_then (dimension_block e vals digital is_3d height_val weight_val)
               (\<lambda>(dimension_factor, dims, weight_info).
                  and_then (price_block vals mats market_demand is_known
                              (obtained_reference e s artiste type_produit) digital dimension_factor)
                    (\<lambda>price. Inr (price, dims, weight_info))) of
          Inl err \<Rightarrow> (Inl err, s4)
        | Inr (price, dims, weight_info) \<Rightarrow>
           (let pp = starting_price_prompt e type_produit artiste marche mats dims weight_info
                       (vals ''resolution'') (vals ''duration'') digital;
                gemini_price_response = returned_text e (length (sent s4)) pp;
                s5 = logged e pp ''price_recommendation'' s4;
                materials_text = (if mats \<noteq> [] then join '', '' mats else ''None'')
            in (case data_row_of e vals (clock e (file_writes s)) artiste marche type_produit
                    materials_text (if is_3d then height_val else Str [])
                    (if is_3d then weight_val else Str []) price market_demand
                    gemini_price_response of
               Inl err \<Rightarrow> (Inl err, s5)
             | Inr data_row \<Rightarrow>
                 then_call (save_to_file e data_row s5)
                   (\<lambda>saved s6. (Inr \<lparr> prix = price, demande_marche = market_demand, dimensions = dims,
                            materiaux = materials_text, artiste_connu = is_known,
                            gemini_price = gemini_price_response,
                            height = (if is_3d then height_val else Str []),
                            weight = (if is_3d then weight_val else Str []) \<rparr>, s6)))))"
  unfolding calculate_price_def get_product_type_requirements_def check_known_artist_def
    get_artist_price_def get_starting_price_from_gpt_def judged_digital_def judged_known_def
    rated_demand_def obtained_reference_def height_used_def weight_used_def judged_requirements_def
  by (cases "str_in ''yes'' (lower (returned_text e (length (sent s) + 2) (known_artist_prompt artiste)))")
     (simp_all add: then_call_consult [OF db] then_call_Inr logged_simps Let_def eval_nat_numeral
        cong: sum.case_cong prod.case_cong)

lemma subscript_Inr: "subscript vals k = Inr v \<longleftrightarrow> vals k = Some v"
  by (simp add: subscript_def split: option.splits)

lemma and_then_Inr: "and_then m f = Inr y \<longleftrightarrow> (\<exists>x. m = Inr x \<and> f x = Inr y)"
  by (cases m) (simp_all add: and_then_def)

lemma dimension_block_keys:
  "dimension_block e vals digital is_3d hv wv = Inr x \<Longrightarrow>
   \<exists>l w. vals ''longueur'' = Some l \<and> vals ''largeur'' = Some w"
  by (auto simp: dimension_block_def and_then_Inr subscript_Inr split: if_splits)

lemma unadjusted_price_keys:
  "unadjusted_price vals mats md bonus df = Inr x \<Longrightarrow>
   \<exists>m l p t. vals ''materiaux'' = Some m \<and> vals ''livraison'' = Some l \<and>
             vals ''pub'' = Some p \<and> vals ''temps'' = Some t"
  by (auto simp: unadjusted_price_def and_then_Inr subscript_Inr Let_def)

lemma price_block_keys:
  "price_block vals mats md known ref digital df = Inr x \<Longrightarrow>
   \<exists>m l p t. vals ''materiaux'' = Some m \<and> vals ''livraison'' = Some l \<and>
             vals ''pub'' = Some p \<and> vals ''temps'' = Some t"
  by (auto simp: price_block_def and_then_Inr Let_def dest: unadjusted_price_keys)

lemma data_row_of_eq:
  assumes "vals ''longueur'' \<noteq> None" "vals ''largeur'' \<noteq> None" "vals ''materiaux'' \<noteq> None"
    "vals ''livraison'' \<noteq> None" "vals ''pub'' \<noteq> None" "vals ''temps'' \<noteq> None"
  shows "data_row_of e vals now a m tp mt h w price d gp =
     Inr (format_save_data now a m tp mt (the (vals ''longueur'')) (the (vals ''largeur'')) h w
            (the (vals ''materiaux'')) (the (vals ''livraison'')) (the (vals ''pub''))
            (the (vals ''temps'')) (format_2f e price) d gp)"
  using assms by (auto simp: data_row_of_def and_then_def subscript_def)

lemma s4_simps:
  "file_writes (if c then logged e p k s else s) = file_writes s"
  "ledger (if c then logged e p k s else s) = ledger s"
  by (simp_all add: logged_simps)

lemma calculate_price_returns:
  assumes db: "\<forall>n. db_fault e n = None"
    and fok: "file_fault e (file_writes s) = None"
    and dim: "dimension_block e vals (judged_digital e s type_produit) is_3d
                (height_used e s type_produit vals is_3d) (weight_used e s type_produit vals is_3d)
              = Inr (df, dims, wi)"
    and price: "price_block vals mats (rated_demand e s type_produit marche) (judged_known e s artiste)
                  (obtained_reference e s artiste type_produit) (judged_digital e s type_produit) df
                = Inr price"
  shows "\<exists>r s'. calculate_price e vals type_produit artiste marche mats is_3d s = (Inr r, s') \<and>
           prix r = price \<and> demande_marche r = rated_demand e s type_produit marche \<and>
           dimensions r = dims \<and> artiste_connu r = judged_known e s artiste \<and>
           length (ledger s') = length (ledger s) + 1"
proof -
  have keys: "vals ''longueur'' \<noteq> None" "vals ''largeur'' \<noteq> None" "vals ''materiaux'' \<noteq> None"
    "vals ''livraison'' \<noteq> None" "vals ''pub'' \<noteq> None" "vals ''temps'' \<noteq> None"
    using dimension_block_keys [OF dim] price_block_keys [OF price] by auto
  show ?thesis
    by (simp add: calculate_price_unfold [OF db] Let_def dim price and_then_def
        data_row_of_eq [OF keys] save_to_file_def then_call_def logged_simps s4_simps fok)
qed

lemma calculate_price_InrD:
  assumes db: "\<forall>n. db_fault e n = None"
    and ret: "calculate_price e vals type_produit artiste marche mats is_3d s = (Inr r, s')"
  shows "\<exists>df wi. dimension_block e vals (judged_digital e s type_produit) is_3d
                (height_used e s type_produit vals is_3d) (weight_used e s type_produit vals is_3d)
              = Inr (df, dimensions r, wi) \<and>
           price_block vals mats (rated_demand e s type_produit marche) (judged_known e s artiste)
                  (obtained_reference e s artiste type_produit) (judged_digital e s type_produit) df
                = Inr (prix r) \<and>
           demande_marche r = rated_demand e s type_produit marche \<and>
           artiste_connu r = judged_known e s artiste \<and>
           file_fault e (file_writes s) = None"
  using ret
  by (auto simp: calculate_price_unfold [OF db] Let_def and_then_def save_to_file_def then_call_def
      logged_simps s4_simps split: sum.splits prod.splits option.splits)

section \<open>The end-to-end scenario\<close>

lemma unadjusted_price_num:
  assumes "vals ''materiaux'' = Some (Num m)" "vals ''livraison'' = Some (Num l)"
    "vals ''pub'' = Some (Num p)" "vals ''temps'' = Some (Num t)"
    "additional_factors_of vals = Inr af"
  shows "unadjusted_price vals mats md bonus df =
     Inr ((m + l + p + t * 15 + bonus) * (1 + real (length mats) * 0.1) *
          (0.8 + 0.05 * real_of_int md) * df * af)"
  using assms by (simp add: unadjusted_price_def and_then_def subscript_def Let_def)

lemma painting_lookups:
  "painting_values ''longueur'' = Some (Num 50)" "painting_values ''largeur'' = Some (Num 70)"
  "painting_values ''materiaux'' = Some (Num 20)" "painting_values ''livraison'' = Some (Num 10)"
  "painting_values ''pub'' = Some (Num 5)" "painting_values ''temps'' = Some (Num 8)"
  "painting_values ''hauteur'' = None" "painting_values ''poids'' = None"
  "painting_values ''resolution'' = None" "painting_values ''duration'' = None"
  by (simp_all add: painting_values_def)

lemma painting_dimension_block:
  "dimension_block e painting_values False False
     (height_used e s tp painting_values False) (weight_used e s tp painting_values False) =
   Inr (35, format_val e (Num 50) @ ''cm x '' @ format_val e (Num 70) @ ''cm'', None)"
  by (simp add: dimension_block_def and_then_def subscript_def painting_lookups height_used_def
      weight_used_def get_default_def)

lemma painting_additional: "additional_factors_of painting_values = Inr 1"
  by (simp add: additional_factors_of_def painting_lookups)

lemma painting_block_price:
  "price_block painting_values [''Canvas'', ''Oil''] md False ref False 35 =
     Inr (155 * 1.2 * (0.8 + 0.05 * real_of_int md) * 35)"
  by (simp add: price_block_def and_then_def painting_lookups
      unadjusted_price_num [OF painting_lookups(3-6) painting_additional] split: option.splits)

lemma painting_returns:
  assumes db: "\<forall>n. db_fault e n = None"
    and fok: "file_fault e (file_writes s) = None"
    and not_digital: "\<not> judged_digital e s ''Painting''"
    and not_known: "\<not> judged_known e s artiste"
  shows "\<exists>r s'. calculate_price e painting_values ''Painting'' artiste marche [''Canvas'', ''Oil''] False s
                  = (Inr r, s') \<and>
                prix r = 155 * 1.2 * (0.8 + 0.05 * real_of_int (rated_demand e s ''Painting'' marche)) * 35 \<and>
                demande_marche r = rated_demand e s ''Painting'' marche"
proof -
  have dim: "dimension_block e painting_values (judged_digital e s ''Painting'') False
     (height_used e s ''Painting'' painting_values False) (weight_used e s ''Painting'' painting_values False) =
   Inr (35, format_val e (Num 50) @ ''cm x '' @ format_val e (Num 70) @ ''cm'', None)"
    using not_digital painting_dimension_block by simp
  have price: "price_block painting_values [''Canvas'', ''Oil''] (rated_demand e s ''Painting'' marche)
      (judged_known e s artiste) (obtained_reference e s artiste ''Painting'')
      (judged_digital e s ''Painting'') 35 =
     Inr (155 * 1.2 * (0.8 + 0.05 * real_of_int (rated_demand e s ''Painting'' marche)) * 35)"
    using not_digital not_known painting_block_price by simp
  from calculate_price_returns [OF db fok dim price] show ?thesis
    by blast
qed

lemma scripted_fields:
  "db_fault (scripted a f) = (\<lambda>n. None)" "file_fault (scripted a f) = (\<lambda>n. f)"
  "generate_content (scripted a f) = (\<lambda>n p. if n < length a then a ! n else Inr [])"
  "format_float (scripted a f) = (\<lambda>x. ''#'')"
  by (simp_all add: scripted_def)

lemmas judged_defs = judged_digital_def judged_known_def rated_demand_def obtained_reference_def
  judged_requirements_def returned_text_def scripted_fields fresh_def get_flag_def
  requirements_of_str_def

lemma market_demand_of_7: "market_demand_of ''7'' = 7"
  by (simp add: market_demand_of_def search_digits_def int_of_digits_def digit_value_def is_digit_def)

text \<open>
  Claim C1, as amended. The end-to-end scenario: product type "Painting", materials
  Canvas and Oil, length 50 and width 70, costs 20, 10 and 5, 8 hours, no resolution or
  duration entry; the oracle judges the product not digital, rates the demand 7 and
  does not know the artist. Then \<open>calculate_price\<close> returns a result whose price is
  155 * 1.2 * 1.15 * 35.0, and that number is 7486.5.
\<close>

theorem painting_price:
  assumes "\<forall>n. db_fault e n = None"
    and "file_fault e (file_writes s) = None"
    and "\<not> judged_digital e s ''Painting''"
    and "rated_demand e s ''Painting'' marche = 7"
    and "\<not> judged_known e s artiste"
  shows "\<exists>r s'. calculate_price e painting_values ''Painting'' artiste marche [''Canvas'', ''Oil''] False s
                  = (Inr r, s') \<and>
                prix r = 155 * 1.2 * 1.15 * 35.0 \<and> prix r = 7486.5"
  using painting_returns [OF assms(1,2,3,5), of marche] assms(4) by auto

lemma painting_env_judged:
  "\<not> judged_digital painting_env fresh ''Painting''"
  "rated_demand painting_env fresh ''Painting'' ''Lisbon'' = 7"
  "\<not> judged_known painting_env fresh ''Ana''"
  by (simp_all add: painting_env_def judged_defs char_eval market_demand_of_7)

theorem painting_price_witness:
  "\<exists>r s'. calculate_price painting_env painting_values ''Painting'' ''Ana'' ''Lisbon''
             [''Canvas'', ''Oil''] False fresh = (Inr r, s') \<and>
           prix r = 155 * 1.2 * 1.15 * 35.0 \<and> prix r = 7486.5"
  using painting_price [of painting_env fresh "''Lisbon''" "''Ana''"] painting_env_judged
  by (simp add: painting_env_def scripted_fields)

text \<open>
  The value the claim gives for the product, 7486.9 within 0.1, is not the price: in the
  scenario the price returned is 7486.5, which is 0.4 away.
\<close>

theorem painting_price_counterexample:
  "map_sum id prix (fst (calculate_price painting_env painting_values ''Painting'' ''Ana'' ''Lisbon''
      [''Canvas'', ''Oil''] False fresh)) = Inr 7486.5 \<and> \<not> \<bar>7486.5 - 7486.9\<bar> \<le> (0.1 :: real)"
proof -
  have "\<forall>n. db_fault painting_env n = None" "file_fault painting_env (file_writes fresh) = None"
    by (simp_all add: painting_env_def scripted_fields)
  from painting_returns [OF this painting_env_judged(1,3), of "''Lisbon''"]
  show ?thesis
    by (auto simp: painting_env_judged(2))
qed

section \<open>Keyword flags\<close>

lemma str_in_sublist: "str_in needle haystack = sublist needle haystack"
  by (induction haystack) (auto simp: sublist_Cons_right)

lemma str_in_lower:
  "str_in (lower keyword) (lower text) = keyword_present keyword text"
proof
  assume "str_in (lower keyword) (lower text)"
  then obtain ps ss where m: "map lower_char text = ps @ lower keyword @ ss"
    by (auto simp: str_in_sublist sublist_def lower_def)
  define piece where "piece = take (length (lower keyword)) (drop (length ps) text)"
  have "map lower_char piece = take (length (lower keyword)) (drop (length ps) (map lower_char text))"
    by (simp add: piece_def take_map drop_map)
  also have "\<dots> = lower keyword"
    by (simp add: m)
  finally have "lower piece = lower keyword"
    by (simp add: lower_def)
  moreover have "text = take (length ps) text @ piece @ drop (length (lower keyword)) (drop (length ps) text)"
    unfolding piece_def by (simp only: append_take_drop_id)
  ultimately have "\<exists>before piece after. text = before @ piece @ after \<and> lower piece = lower keyword"
    by blast
  then show "keyword_present keyword text"
    by (simp add: keyword_present_def)
next
  assume "keyword_present keyword text"
  then obtain before piece after where
    "text = before @ piece @ after" "lower piece = lower keyword"
    by (auto simp: keyword_present_def)
  then have "lower text = lower before @ lower keyword @ lower after"
    by (simp add: lower_def)
  then show "str_in (lower keyword) (lower text)"
    by (auto simp: str_in_sublist sublist_def)
qed

text \<open>
  Claim C8. The flags derived from an unstructured response are the case-insensitive
  presence of the listed keywords; being a function of the response text alone, the
  classifier gives the same flags each time it is applied to the same text.
\<close>

theorem requirements_of_str_keywords:
  "requirements_of_str response =
     [''is_digital'' \<mapsto> keyword_present ''digital'' response,
      ''is_3d'' \<mapsto> (keyword_present ''3d'' response \<or> keyword_present ''three-dimensional'' response
                \<or> keyword_present ''sculpture'' response \<or> keyword_present ''installation'' response),
      ''needs_height'' \<mapsto> (keyword_present ''height'' response \<or> keyword_present ''dimension'' response),
      ''needs_weight'' \<mapsto> (keyword_present ''weight'' response \<or> keyword_present ''mass'' response),
      ''needs_duration'' \<mapsto> (keyword_present ''duration'' response \<or> keyword_present ''length'' response),
      ''needs_resolution'' \<mapsto> (keyword_present ''resolution'' response \<or> keyword_present ''quality'' response)]"
proof -
  have k: "\<And>keyword. lower keyword = keyword \<Longrightarrow>
             str_in keyword (lower response) = keyword_present keyword response"
    using str_in_lower [of _ response] by metis
  have l: "lower ''digital'' = ''digital''" "lower ''3d'' = ''3d''"
    "lower ''three-dimensional'' = ''three-dimensional''" "lower ''sculpture'' = ''sculpture''"
    "lower ''installation'' = ''installation''" "lower ''height'' = ''height''"
    "lower ''dimension'' = ''dimension''" "lower ''weight'' = ''weight''" "lower ''mass'' = ''mass''"
    "lower ''duration'' = ''duration''" "lower ''length'' = ''length''"
    "lower ''resolution'' = ''resolution''" "lower ''quality'' = ''quality''"
    by (simp_all add: char_eval)
  show ?thesis
    unfolding requirements_of_str_def Let_def by (simp add: k l)
qed

theorem requirements_of_str_keywords_witness:
  "requirements_of_str ''A DIGITAL Sculpture'' ''is_digital'' = Some True \<and>
   keyword_present ''digital'' ''A DIGITAL Sculpture''"
proof -
  have a: "requirements_of_str ''A DIGITAL Sculpture'' ''is_digital'' = Some True"
    by (simp add: requirements_of_str_def char_eval)
  have b: "requirements_of_str ''A DIGITAL Sculpture'' ''is_digital'' =
           Some (keyword_present ''digital'' ''A DIGITAL Sculpture'')"
    by (simp add: requirements_of_str_keywords)
  from a b show ?thesis
    by simp
qed

section \<open>Validation in the form\<close>

text \<open>
  Claim C3. When the artist, the market or the product type is missing or empty, or no
  material is selected, the price action stops with a validation error before anything
  else happens: the state is unchanged, so no request was sent to the oracle and no
  interaction or ledger row was written.
\<close>

theorem validation_before_oracle:
  assumes "strip (entry_artist f) = [] \<or> strip (entry_market f) = [] \<or>
           (if var_type f = ''Other'' then strip (entry_other_type f) else var_type f) = [] \<or>
           selected_materials f = []"
  shows "\<exists>msg. ui_calculate_price e f s = (ValueErrorShown msg, s)"
  using assms by (auto simp: ui_calculate_price_def Let_def)

theorem validation_before_oracle_witness:
  "strip (entry_artist nameless_form) = [] \<and>
   (\<exists>msg. ui_calculate_price painting_env nameless_form fresh = (ValueErrorShown msg, fresh))"
proof -
  have "strip (entry_artist nameless_form) = []"
    by (simp add: nameless_form_def strip_def is_space_def)
  then show ?thesis
    using validation_before_oracle [of nameless_form painting_env fresh] by simp
qed

section \<open>The dimension factor of digital products\<close>

lemma digital_block:
  assumes "vals ''longueur'' = Some (Num l)" "vals ''largeur'' = Some (Num w)"
  shows "dimension_block e vals True is_3d hv (Num x) =
     Inr (digital_factor (l * w),
          if l * w > 0 then format_val e (Num l) @ ''px x '' @ format_val e (Num w) @ ''px''
          else ''Unknown'',
          if x > 0 then Some (format_val e (Num x) @ '' kg'') else None)"
  using assms by (simp add: dimension_block_def and_then_def subscript_def)

text \<open>
  Claim C6, as amended. For a digital product with numeric length, width and weight the
  dimension factor is a step function of the pixel area: 0.8 for an area above zero and
  below 1,000,000; 1.0 from 1,000,000 to below 4,000,000; 1.2 from 4,000,000 to below
  8,000,000; 1.5 from 8,000,000 on; and 1.0 for an area of zero or less.
\<close>

theorem digital_dimension_factor:
  assumes "vals ''longueur'' = Some (Num l)" "vals ''largeur'' = Some (Num w)"
  shows "\<exists>df dims wi. dimension_block e vals True is_3d hv (Num x) = Inr (df, dims, wi) \<and>
           (0 < l * w \<and> l * w < 1000000 \<longrightarrow> df = 0.8) \<and>
           (1000000 \<le> l * w \<and> l * w < 4000000 \<longrightarrow> df = 1.0) \<and>
           (4000000 \<le> l * w \<and> l * w < 8000000 \<longrightarrow> df = 1.2) \<and>
           (8000000 \<le> l * w \<longrightarrow> df = 1.5) \<and>
           (l * w \<le> 0 \<longrightarrow> df = 1.0)"
  by (simp add: digital_block [OF assms] digital_factor_def)

theorem digital_dimension_factor_witness:
  "megapixel_values ''longueur'' = Some (Num 1000) \<and> megapixel_values ''largeur'' = Some (Num 1000) \<and>
   (\<exists>dims wi. dimension_block painting_env megapixel_values True False (Num 0) (Num 0)
      = Inr (1.0, dims, wi))"
proof -
  have v: "megapixel_values ''longueur'' = Some (Num 1000)" "megapixel_values ''largeur'' = Some (Num 1000)"
    by (simp_all add: megapixel_values_def)
  from digital_dimension_factor [OF v, of painting_env False "Num 0" 0] v show ?thesis
    by auto
qed

text \<open>
  A digital product of length 0 has a pixel area below 1,000,000, and its factor is 1.0,
  not 0.8.
\<close>

theorem digital_dimension_factor_counterexample:
  "dimension_block painting_env no_length_values True False (Num 0) (Num 0) =
     Inr (1.0, ''Unknown'', None)"
proof -
  have v: "no_length_values ''longueur'' = Some (Num 0)" "no_length_values ''largeur'' = Some (Num 70)"
    by (simp_all add: no_length_values_def painting_lookups)
  show ?thesis
    by (simp add: digital_block [OF v] digital_factor_def)
qed

text \<open>
  Claim C10. For a digital product whose pixel area is zero or negative,
  \<open>calculate_price\<close> leaves the dimension factor at 1.0 (the price is the one computed
  with the factor 1.0) and the dimension string of the result is "Unknown".
\<close>

theorem nonpositive_pixel_area:
  assumes "\<forall>n. db_fault e n = None"
    and "calculate_price e vals type_produit artiste marche mats is_3d s = (Inr r, s')"
    and "judged_digital e s type_produit"
    and "vals ''longueur'' = Some (Num l)" "vals ''largeur'' = Some (Num w)"
    and "l * w \<le> 0"
  shows "dimensions r = ''Unknown'' \<and>
         (\<exists>wi. dimension_block e vals True is_3d (height_used e s type_produit vals is_3d)
                  (weight_used e s type_produit vals is_3d) = Inr (1.0, ''Unknown'', wi)) \<and>
         price_block vals mats (demande_marche r) (artiste_connu r)
           (obtained_reference e s artiste type_produit) True 1.0 = Inr (prix r)"
proof -
  from calculate_price_InrD [OF assms(1,2)] assms(3) obtain df wi where
    dim: "dimension_block e vals True is_3d (height_used e s type_produit vals is_3d)
            (weight_used e s type_produit vals is_3d) = Inr (df, dimensions r, wi)"
    and price: "price_block vals mats (rated_demand e s type_produit marche) (judged_known e s artiste)
                  (obtained_reference e s artiste type_produit) True df = Inr (prix r)"
    and rest: "demande_marche r = rated_demand e s type_produit marche"
      "artiste_connu r = judged_known e s artiste"
    by auto
  from dim assms(4-6) have "df = 1.0 \<and> dimensions r = ''Unknown''"
    by (auto simp: dimension_block_def and_then_def subscript_def digital_factor_def
        split: sum.splits)
  with dim price rest show ?thesis
    by auto
qed

lemma print_env_judged:
  "judged_digital print_env fresh tp" "rated_demand print_env fresh tp m = 5"
  "judged_known print_env fresh a" "obtained_reference print_env fresh a tp = Some 1000"
  by (simp_all add: print_env_def judged_defs char_eval market_demand_of_def search_digits_def
      int_of_digits_def digit_value_def artist_price_of_def findall_numbers_def)

lemma print_env_ok:
  "\<forall>n. db_fault print_env n = None" "file_fault print_env (file_writes fresh) = None"
  by (simp_all add: print_env_def scripted_fields)

lemma no_length_returns:
  "\<exists>r s'. calculate_price print_env no_length_values ''Print'' ''Ana'' ''Lisbon''
             [''Canvas'', ''Oil''] False fresh = (Inr r, s')"
proof -
  have v: "no_length_values ''longueur'' = Some (Num 0)" "no_length_values ''largeur'' = Some (Num 70)"
    "no_length_values ''materiaux'' = Some (Num 20)" "no_length_values ''livraison'' = Some (Num 10)"
    "no_length_values ''pub'' = Some (Num 5)" "no_length_values ''temps'' = Some (Num 8)"
    "no_length_values ''resolution'' = None" "no_length_values ''duration'' = None"
    "no_length_values ''poids'' = None"
    by (simp_all add: no_length_values_def painting_lookups)
  have w: "weight_used print_env fresh ''Print'' no_length_values False = Num 0"
    by (simp add: weight_used_def get_default_def v)
  have af: "additional_factors_of no_length_values = Inr 1"
    by (simp add: additional_factors_of_def v)
  have dim: "dimension_block print_env no_length_values (judged_digital print_env fresh ''Print'') False
      (height_used print_env fresh ''Print'' no_length_values False)
      (weight_used print_env fresh ''Print'' no_length_values False) = Inr (1.0, ''Unknown'', None)"
    by (simp add: print_env_judged w digital_block [OF v(1,2)] digital_factor_def)
  have "price_block no_length_values [''Canvas'', ''Oil''] (rated_demand print_env fresh ''Print'' ''Lisbon'')
      (judged_known print_env fresh ''Ana'') (obtained_reference print_env fresh ''Ana'' ''Print'')
      (judged_digital print_env fresh ''Print'') 1.0 = Inr 629.15"
    by (simp add: print_env_judged price_block_def and_then_def v
        unadjusted_price_num [OF v(3-6) af])
  from calculate_price_returns [OF print_env_ok dim this] show ?thesis
    by blast
qed

theorem nonpositive_pixel_area_witness:
  "\<exists>r s'. calculate_price print_env no_length_values ''Print'' ''Ana'' ''Lisbon''
             [''Canvas'', ''Oil''] False fresh = (Inr r, s') \<and>
           judged_digital print_env fresh ''Print'' \<and> (0::real) * 70 \<le> 0 \<and>
           dimensions r = ''Unknown''"
proof -
  from no_length_returns obtain r s' where
    ret: "calculate_price print_env no_length_values ''Print'' ''Ana'' ''Lisbon''
            [''Canvas'', ''Oil''] False fresh = (Inr r, s')"
    by blast
  have v: "no_length_values ''longueur'' = Some (Num 0)" "no_length_values ''largeur'' = Some (Num 70)"
    by (simp_all add: no_length_values_def painting_lookups)
  have "dimensions r = ''Unknown''"
    using nonpositive_pixel_area [OF print_env_ok(1) ret print_env_judged(1) v] by simp
  with ret print_env_judged(1) show ?thesis
    by auto
qed

section \<open>Known artists and the reference price\<close>

text \<open>
  Claim C5, as amended. Let the price before adjustment be the product of factors (with
  the dimension factor of the dimension block), with the reputation bonus of 50 for an
  artist judged known and of 0 otherwise. For a known
  artist with a reference price R other than zero, the reported price is the mean of that
  price and R; for an artist judged not known it is that price, computed without bonus
  and without reference price. In both cases the result is then multiplied by
  1 + 0.1 * resolution_factor when the product is digital and a resolution entry is
  present.
\<close>

theorem known_artist_average:
  assumes "\<forall>n. db_fault e n = None"
    and "calculate_price e vals type_produit artiste marche mats is_3d s = (Inr r, s')"
  shows "\<exists>df wi u premium.
           dimension_block e vals (judged_digital e s type_produit) is_3d
             (height_used e s type_produit vals is_3d) (weight_used e s type_produit vals is_3d)
             = Inr (df, dimensions r, wi) \<and>
           unadjusted_price vals mats (demande_marche r) (if artiste_connu r then 50 else 0) df = Inr u \<and>
           artiste_connu r = judged_known e s artiste \<and>
           (if judged_digital e s type_produit \<and> vals ''resolution'' \<noteq> None
            then \<exists>rf. get_default vals ''resolution_factor'' (Num 1.0) = Num rf \<and>
                      premium = 1.0 + 0.1 * rf
            else premium = 1.0) \<and>
           (artiste_connu r \<longrightarrow>
              (\<forall>R. obtained_reference e s artiste type_produit = Some R \<and> R \<noteq> 0 \<longrightarrow>
                   prix r = (u + R) / 2 * premium)) \<and>
           (\<not> artiste_connu r \<longrightarrow> prix r = u * premium)"
proof -
  from calculate_price_InrD [OF assms] obtain df wi where
    dim: "dimension_block e vals (judged_digital e s type_produit) is_3d
            (height_used e s type_produit vals is_3d) (weight_used e s type_produit vals is_3d)
          = Inr (df, dimensions r, wi)"
    and price: "price_block vals mats (rated_demand e s type_produit marche) (judged_known e s artiste)
              (obtained_reference e s artiste type_produit) (judged_digital e s type_produit) df
            = Inr (prix r)"
    and rest: "demande_marche r = rated_demand e s type_produit marche"
      "artiste_connu r = judged_known e s artiste"
    by auto
  from price obtain u where
    u: "unadjusted_price vals mats (demande_marche r) (if artiste_connu r then 50 else 0) df = Inr u"
    by (auto simp: price_block_def and_then_Inr Let_def rest)
  have nk: "\<not> judged_known e s artiste \<Longrightarrow> obtained_reference e s artiste type_produit = None"
    by (simp add: obtained_reference_def)
  show ?thesis
  proof (cases "judged_digital e s type_produit \<and> vals ''resolution'' \<noteq> None")
    case True
    with price u obtain rf where
      rf: "get_default vals ''resolution_factor'' (Num 1.0) = Num rf"
      by (cases "get_default vals ''resolution_factor'' (Num 1.0)")
         (auto simp: price_block_def and_then_def Let_def rest split: option.splits if_splits)
    with price u True nk dim show ?thesis
      by (intro exI [of _ df] exI [of _ wi] exI [of _ u] exI [of _ "1.0 + 0.1 * rf"])
         (auto simp: price_block_def and_then_def Let_def rest split: option.splits if_splits)
  next
    case False
    with price u nk dim show ?thesis
      by (intro exI [of _ df] exI [of _ wi] exI [of _ u] exI [of _ "1.0"])
         (auto simp: price_block_def and_then_def Let_def rest split: option.splits if_splits)
  qed
qed

lemma print_lookups:
  "print_values ''longueur'' = Some (Num 50)" "print_values ''largeur'' = Some (Num 70)"
  "print_values ''materiaux'' = Some (Num 20)" "print_values ''livraison'' = Some (Num 10)"
  "print_values ''pub'' = Some (Num 5)" "print_values ''temps'' = Some (Num 8)"
  "print_values ''resolution'' = Some (Num 0)" "print_values ''duration'' = None"
  "print_values ''poids'' = None" "print_values ''resolution_factor'' = None"
  by (simp_all add: print_values_def painting_values_def)

lemma print_additional: "additional_factors_of print_values = Inr 1"
  by (simp add: additional_factors_of_def print_lookups resolution_tier_def)

lemma print_unadjusted:
  "unadjusted_price print_values [''Canvas'', ''Oil''] 5 50 0.8 = Inr 206.64"
  by (simp add: unadjusted_price_num [OF print_lookups(3-6) print_additional])

lemma print_format: "format_float print_env x = ''#''"
  by (simp add: print_env_def scripted_fields)

lemma print_returns:
  "\<exists>r s'. calculate_price print_env print_values ''Print'' ''Ana'' ''Lisbon''
             [''Canvas'', ''Oil''] False fresh = (Inr r, s') \<and> prix r = 663.652 \<and>
           artiste_connu r \<and> demande_marche r = 5"
proof -
  have w: "weight_used print_env fresh ''Print'' print_values False = Num 0"
    by (simp add: weight_used_def get_default_def print_lookups)
  have dim: "dimension_block print_env print_values (judged_digital print_env fresh ''Print'') False
      (height_used print_env fresh ''Print'' print_values False)
      (weight_used print_env fresh ''Print'' print_values False) = Inr (0.8, ''#px x #px'', None)"
    by (simp add: print_env_judged w digital_block [OF print_lookups(1,2)] digital_factor_def
        format_val_def print_format)
  have price: "price_block print_values [''Canvas'', ''Oil''] (rated_demand print_env fresh ''Print'' ''Lisbon'')
      (judged_known print_env fresh ''Ana'') (obtained_reference print_env fresh ''Ana'' ''Print'')
      (judged_digital print_env fresh ''Print'') 0.8 = Inr 663.652"
    using print_unadjusted
    by (simp add: print_env_judged price_block_def and_then_def print_lookups get_default_def)
  from calculate_price_returns [OF print_env_ok dim price] show ?thesis
    by (auto simp: print_env_judged)
qed

theorem known_artist_average_witness:
  "\<exists>r s' df u. calculate_price print_env print_values ''Print'' ''Ana'' ''Lisbon''
             [''Canvas'', ''Oil''] False fresh = (Inr r, s') \<and>
           unadjusted_price print_values [''Canvas'', ''Oil''] (demande_marche r) 50 df = Inr u \<and>
           prix r = (u + 1000) / 2 * 1.1"
proof -
  from print_returns obtain r s' where
    ret: "calculate_price print_env print_values ''Print'' ''Ana'' ''Lisbon''
            [''Canvas'', ''Oil''] False fresh = (Inr r, s')"
    by blast
  from known_artist_average [OF print_env_ok(1) ret]
  obtain df and wi :: "string option" and u premium where
    u: "unadjusted_price print_values [''Canvas'', ''Oil''] (demande_marche r)
          (if artiste_connu r then 50 else 0) df = Inr u"
    and k: "artiste_connu r = judged_known print_env fresh ''Ana''"
    and p: "if judged_digital print_env fresh ''Print'' \<and> print_values ''resolution'' \<noteq> None
            then \<exists>rf. get_default print_values ''resolution_factor'' (Num 1.0) = Num rf \<and>
                      premium = 1.0 + 0.1 * rf
            else premium = 1.0"
    and av: "artiste_connu r \<longrightarrow>
              (\<forall>R. obtained_reference print_env fresh ''Ana'' ''Print'' = Some R \<and> R \<noteq> 0 \<longrightarrow>
                   prix r = (u + R) / 2 * premium)"
    by blast
  from k have known: "artiste_connu r"
    by (simp add: print_env_judged)
  from p have "premium = 1.1"
    by (simp add: print_env_judged print_lookups get_default_def)
  with av known have "prix r = (u + 1000) / 2 * 1.1"
    by (simp add: print_env_judged)
  with ret u known show ?thesis
    by auto
qed

text \<open>
  A digital print with a resolution entry, by a known artist with reference price 1000:
  the price before adjustment is 206.64 and the reported price is 663.652, not
  (206.64 + 1000) / 2.
\<close>

theorem known_artist_average_counterexample:
  "judged_known print_env fresh ''Ana'' \<and>
   obtained_reference print_env fresh ''Ana'' ''Print'' = Some 1000 \<and>
   unadjusted_price print_values [''Canvas'', ''Oil''] 5 50 0.8 = Inr 206.64 \<and>
   map_sum id prix (fst (calculate_price print_env print_values ''Print'' ''Ana'' ''Lisbon''
      [''Canvas'', ''Oil''] False fresh)) = Inr 663.652 \<and>
   (663.652 :: real) \<noteq> (206.64 + 1000) / 2"
proof -
  from print_returns have
    "map_sum id prix (fst (calculate_price print_env print_values ''Print'' ''Ana'' ''Lisbon''
      [''Canvas'', ''Oil''] False fresh)) = Inr 663.652"
    by auto
  then show ?thesis
    using print_unadjusted by (simp add: print_env_judged)
qed

section \<open>A failing append to the data file\<close>

lemma consult_api_gemini_keeps:
  "file_writes (snd (consult_api_gemini e p k s)) = file_writes s"
  "ledger (snd (consult_api_gemini e p k s)) = ledger s"
  by (simp_all add: consult_api_gemini_def api_error_def store_interaction_def Let_def
      split: sum.splits option.splits prod.splits)

lemma consult_api_gemini_keepsD:
  "consult_api_gemini e p k s = (x, s1) \<Longrightarrow> file_writes s1 = file_writes s \<and> ledger s1 = ledger s"
  using consult_api_gemini_keeps [of e p k s] by simp

lemma then_call_rule:
  assumes "\<And>err s1. m = (Inl err, s1) \<Longrightarrow> P (Inl err, s1)"
    and "\<And>x s1. m = (Inr x, s1) \<Longrightarrow> P (f x s1)"
  shows "P (then_call m f)"
proof (cases m)
  case (Pair a s1)
  then show ?thesis
    using assms by (cases a) (simp_all add: then_call_def)
qed

lemma calculate_price_lost:
  assumes ff: "file_fault e (file_writes s) = Some msg"
  shows "lost s (calculate_price e vals type_produit artiste marche mats is_3d s)"
  unfolding calculate_price_def get_product_type_requirements_def
proof (rule then_call_rule, goal_cases)
  case (1 err s1)
  then show ?case
    by (auto simp: lost_def dest: consult_api_gemini_keepsD)
next
  case (2 x s1)
  then have k1: "file_writes s1 = file_writes s" "ledger s1 = ledger s"
    by (auto dest: consult_api_gemini_keepsD)
  show ?case
    unfolding Let_def
  proof (rule then_call_rule, goal_cases)
    case (1 err s2)
    then show ?case
      using k1 by (auto simp: lost_def dest: consult_api_gemini_keepsD)
  next
    case (2 y s2)
    then have k2: "file_writes s2 = file_writes s" "ledger s2 = ledger s"
      using k1 by (auto dest: consult_api_gemini_keepsD)
    show ?case
    proof (rule then_call_rule, goal_cases)
      case (1 err s3)
      then show ?case
        using k2 by (auto simp: lost_def check_known_artist_def then_call_def
            split: prod.splits sum.splits dest: consult_api_gemini_keepsD)
    next
      case (2 known s3)
      then have k3: "file_writes s3 = file_writes s" "ledger s3 = ledger s"
        using k2 by (auto simp: check_known_artist_def then_call_def
            split: prod.splits sum.splits dest: consult_api_gemini_keepsD)
      show ?case
      proof (rule then_call_rule, goal_cases)
        case (1 err s4)
        then show ?case
          using k3 by (auto simp: lost_def get_artist_price_def then_call_def
              split: prod.splits sum.splits if_splits dest: consult_api_gemini_keepsD)
      next
        case (2 ref s4)
        then have k4: "file_writes s4 = file_writes s" "ledger s4 = ledger s"
          using k3 by (auto simp: get_artist_price_def then_call_def
              split: prod.splits sum.splits if_splits dest: consult_api_gemini_keepsD)
        show ?case
        proof (cases "and_then
              (dimension_block e vals (get_flag (requirements_of_str x) ''is_digital'') is_3d
                (if is_3d \<or> get_flag (requirements_of_str x) ''needs_height''
                 then get_default vals ''hauteur'' (Num 0) else Num 0)
                (if is_3d \<or> get_flag (requirements_of_str x) ''needs_weight''
                 then get_default vals ''poids'' (Num 0) else Num 0))
              (\<lambda>(dimension_factor, dims, weight_info).
                  and_then
                   (price_block vals mats (market_demand_of y) known ref
                     (get_flag (requirements_of_str x) ''is_digital'') dimension_factor)
                   (\<lambda>price. Inr (price, dims, weight_info)))")
          case (Inl err)
          then show ?thesis
            using k4 by (simp add: lost_def)
        next
          case (Inr t)
          obtain price dims wi where t: "t = (price, dims, wi)"
            by (cases t)
          show ?thesis
            unfolding Inr t sum.case prod.case get_starting_price_from_gpt_def
          proof (rule then_call_rule, goal_cases)
            case (1 err s5)
            then show ?case
              using k4 by (auto simp: lost_def dest: consult_api_gemini_keepsD)
          next
            case (2 gp s5)
            then have k5: "file_writes s5 = file_writes s" "ledger s5 = ledger s"
              using k4 by (auto dest: consult_api_gemini_keepsD)
            then show ?case
              using ff by (auto simp: lost_def save_to_file_def then_call_def Let_def
                  split: sum.splits)
          qed
        qed
      qed
    qed
  qed
qed

lemma calculate_price_oserror:
  assumes db: "\<forall>n. db_fault e n = None"
    and ff: "file_fault e (file_writes s) = Some msg"
    and dim: "dimension_block e vals (judged_digital e s type_produit) is_3d
                (height_used e s type_produit vals is_3d) (weight_used e s type_produit vals is_3d)
              = Inr (df, dims, wi)"
    and price: "price_block vals mats (rated_demand e s type_produit marche) (judged_known e s artiste)
                  (obtained_reference e s artiste type_produit) (judged_digital e s type_produit) df
                = Inr price"
  shows "fst (calculate_price e vals type_produit artiste marche mats is_3d s) = Inl (OSError msg)"
proof -
  have keys: "vals ''longueur'' \<noteq> None" "vals ''largeur'' \<noteq> None" "vals ''materiaux'' \<noteq> None"
    "vals ''livraison'' \<noteq> None" "vals ''pub'' \<noteq> None" "vals ''temps'' \<noteq> None"
    using dimension_block_keys [OF dim] price_block_keys [OF price] by auto
  show ?thesis
    by (simp add: calculate_price_unfold [OF db] Let_def dim price and_then_def
        data_row_of_eq [OF keys] save_to_file_def then_call_def logged_simps s4_simps ff)
qed

text \<open>
  Claim C4, as amended. When the append of the row to the data file fails, no result is
  returned: \<open>calculate_price\<close> ends with an error and the form shows an error instead of
  the results; no row is added. When the computation got as far as the append (the
  interactions were stored and the dimensions and the price were computed), the error is
  the one of the append.
\<close>

theorem ledger_failure_propagates:
  assumes "file_fault e (file_writes s) = Some msg"
  shows "(\<exists>err. fst (calculate_price e vals type_produit artiste marche mats is_3d s) = Inl err) \<and>
         ledger (snd (calculate_price e vals type_produit artiste marche mats is_3d s)) = ledger s \<and>
         (\<forall>r. fst (ui_calculate_price e f s) \<noteq> Results r) \<and>
         ((\<forall>n. db_fault e n = None) \<and>
          (\<exists>df dims wi price.
             dimension_block e vals (judged_digital e s type_produit) is_3d
               (height_used e s type_produit vals is_3d) (weight_used e s type_produit vals is_3d)
               = Inr (df, dims, wi) \<and>
             price_block vals mats (rated_demand e s type_produit marche) (judged_known e s artiste)
               (obtained_reference e s artiste type_produit) (judged_digital e s type_produit) df
               = Inr price) \<longrightarrow>
          fst (calculate_price e vals type_produit artiste marche mats is_3d s) = Inl (OSError msg))"
proof -
  have a: "\<And>vals tp a m mats is_3d. lost s (calculate_price e vals tp a m mats is_3d s)"
    using calculate_price_lost [OF assms] by blast
  have "\<forall>r. fst (ui_calculate_price e f s) \<noteq> Results r"
  proof -
    have "calculate_price e vals tp a m mats is_3d s \<noteq> (Inr r, s')" for vals tp a m mats is_3d r s'
      using a [of vals tp a m mats is_3d] by (auto simp: lost_def)
    then show ?thesis
      by (auto simp: ui_calculate_price_def Let_def split: prod.splits sum.splits)
  qed
  then show ?thesis
    using a [of vals type_produit artiste marche mats is_3d] calculate_price_oserror [OF _ assms]
    by (auto simp: lost_def)
qed

lemma locked_file_env_ok:
  "\<forall>n. db_fault locked_file_env n = None"
  "file_fault locked_file_env (file_writes fresh) = Some ''[Errno 13] Permission denied''"
  by (simp_all add: locked_file_env_def scripted_fields)

lemma locked_file_env_judged:
  "\<not> judged_digital locked_file_env fresh ''Painting''"
  "rated_demand locked_file_env fresh ''Painting'' ''Lisbon'' = 7"
  "\<not> judged_known locked_file_env fresh ''Ana''"
  by (simp_all add: locked_file_env_def judged_defs char_eval market_demand_of_7)

theorem ledger_failure_propagates_witness:
  "file_fault locked_file_env (file_writes fresh) = Some ''[Errno 13] Permission denied'' \<and>
   (\<exists>err. fst (calculate_price locked_file_env painting_values ''Painting'' ''Ana'' ''Lisbon''
                 [''Canvas'', ''Oil''] False fresh) = Inl err) \<and>
   ledger (snd (calculate_price locked_file_env painting_values ''Painting'' ''Ana'' ''Lisbon''
                 [''Canvas'', ''Oil''] False fresh)) = ledger fresh"
  using ledger_failure_propagates [OF locked_file_env_ok(2), of painting_values "''Painting''"
      "''Ana''" "''Lisbon''" "[''Canvas'', ''Oil'']" False]
    locked_file_env_ok(2)
  by blast

text \<open>
  In the scenario of the painting with a data file that cannot be opened, the price is
  computed and then lost: \<open>calculate_price\<close> ends with the error of the append.
\<close>

theorem ledger_failure_propagates_counterexample:
  "fst (calculate_price locked_file_env painting_values ''Painting'' ''Ana'' ''Lisbon''
         [''Canvas'', ''Oil''] False fresh) = Inl (OSError ''[Errno 13] Permission denied'')"
proof -
  have dim: "dimension_block locked_file_env painting_values
      (judged_digital locked_file_env fresh ''Painting'') False
      (height_used locked_file_env fresh ''Painting'' painting_values False)
      (weight_used locked_file_env fresh ''Painting'' painting_values False) =
    Inr (35, format_val locked_file_env (Num 50) @ ''cm x '' @ format_val locked_file_env (Num 70) @ ''cm'', None)"
    using locked_file_env_judged(1) painting_dimension_block by simp
  have price: "price_block painting_values [''Canvas'', ''Oil'']
      (rated_demand locked_file_env fresh ''Painting'' ''Lisbon'')
      (judged_known locked_file_env fresh ''Ana'')
      (obtained_reference locked_file_env fresh ''Ana'' ''Painting'')
      (judged_digital locked_file_env fresh ''Painting'') 35 =
     Inr (155 * 1.2 * (0.8 + 0.05 * real_of_int (rated_demand locked_file_env fresh ''Painting'' ''Lisbon'')) * 35)"
    using locked_file_env_judged(1,3) painting_block_price by simp
  from calculate_price_oserror [OF locked_file_env_ok dim price] show ?thesis .
qed

section \<open>Requests that raise\<close>

lemma invalid_key_env_ok:
  "\<forall>n. db_fault invalid_key_env n = None" "file_fault invalid_key_env (file_writes fresh) = None"
  by (simp_all add: invalid_key_env_def scripted_fields)

lemma invalid_key_env_returned:
  "n < 5 \<Longrightarrow> returned_text invalid_key_env n p =
     ''API Error: 400 API key not valid. Please pass a valid API key.''"
  by (simp add: invalid_key_env_def returned_text_def scripted_fields)

lemma market_demand_of_400:
  "market_demand_of ''API Error: 400 API key not valid. Please pass a valid API key.'' = 400"
  by (simp add: market_demand_of_def search_digits_def int_of_digits_def digit_value_def is_digit_def)

lemma invalid_key_env_judged:
  "\<not> judged_digital invalid_key_env fresh ''Painting''"
  "rated_demand invalid_key_env fresh ''Painting'' ''Lisbon'' = 400"
  "\<not> judged_known invalid_key_env fresh ''Ana''"
  by (simp_all add: judged_digital_def judged_known_def rated_demand_def judged_requirements_def
      invalid_key_env_returned fresh_def market_demand_of_400 get_flag_def requirements_of_str_def
      char_eval)

text \<open>
  A request that raises is caught by the oracle client: when the interaction is stored,
  exactly one row is added, with the request type, the prompt, the error text and the
  elapsed time, and the error text is returned.
\<close>

lemma consult_api_gemini_raises:
  assumes "db_fault e (db_writes s) = None" "generate_content e (length (sent s)) p = Inl msg"
  shows "consult_api_gemini e p k s =
     (Inr (''API Error: '' @ msg),
      s\<lparr>sent := sent s @ [p], db_writes := db_writes s + 1,
        interactions := interactions s @
          [(clock e (db_writes s), k, p, ''API Error: '' @ msg, elapsed e (db_writes s))]\<rparr>)"
  using assms by (simp add: consult_api_gemini_ok logged_def returned_text_def)

lemma market_demand_of_no_digit:
  assumes "\<not> list_ex is_digit t"
  shows "market_demand_of t = 5"
proof -
  have h: "dropWhile (\<lambda>c. \<not> is_digit c) t = []"
    using assms unfolding dropWhile_eq_Nil_conv list_ex_iff by blast
  show ?thesis
    unfolding market_demand_of_def search_digits_def h by simp
qed

text \<open>
  Claim C2, at the failing input. Every request raises with the text of an HTTP 400
  error. The computation completes, and the market demand of its result is 400, the
  first number of the error text, not the default 5.
\<close>

theorem failed_request_demand:
  "returned_text invalid_key_env 1 (prompt_market ''Painting'' ''Lisbon'') =
     ''API Error: 400 API key not valid. Please pass a valid API key.'' \<and>
   map_sum id demande_marche
     (fst (calculate_price invalid_key_env painting_values ''Painting'' ''Ana'' ''Lisbon''
            [''Canvas'', ''Oil''] False fresh)) = Inr 400"
proof -
  from painting_returns [OF invalid_key_env_ok invalid_key_env_judged(1,3), of "''Lisbon''"]
  have "map_sum id demande_marche
     (fst (calculate_price invalid_key_env painting_values ''Painting'' ''Ana'' ''Lisbon''
            [''Canvas'', ''Oil''] False fresh)) = Inr 400"
    by (auto simp: invalid_key_env_judged(2))
  then show ?thesis
    by (simp add: invalid_key_env_returned)
qed

section \<open>Parsing the reference price\<close>

lemma digit_not_space: "is_digit c \<Longrightarrow> \<not> is_space c"
  by (auto simp: is_digit_def is_space_def Let_def)

lemma pieces_nonempty: "pieces s \<noteq> []"
  by (induction s) auto

lemma hd_tl_pieces: "hd (pieces s) # tl (pieces s) = pieces s"
  by (simp add: pieces_nonempty)

lemma scan_numbers_digits:
  assumes "\<forall>c\<in>set gap. \<not> is_digit c"
  shows "map (filter is_digit) (scan_numbers cur gap s) =
     (if cur \<noteq> [] \<or> list_ex is_digit (hd (pieces s))
      then [filter is_digit cur @ filter is_digit (hd (pieces s))] else []) @
     map (filter is_digit) (filter (list_ex is_digit) (tl (pieces s)))"
  using assms
proof (induction s arbitrary: cur gap)
  case Nil
  then show ?case by simp
next
  case (Cons c cs)
  have nogap: "filter is_digit gap = []"
    using Cons.prems by (simp add: filter_empty_conv)
  have whole: "map (filter is_digit) (filter (list_ex is_digit) (pieces cs)) =
      (if list_ex is_digit (hd (pieces cs)) then [filter is_digit (hd (pieces cs))] else []) @
      map (filter is_digit) (filter (list_ex is_digit) (tl (pieces cs)))"
    by (subst hd_tl_pieces [of cs, symmetric]) simp
  show ?case
  proof (cases "is_digit c")
    case True
    then show ?thesis
      using Cons.IH [of "[]" "cur @ gap @ [c]"] by (simp add: nogap)
  next
    case False
    note nd = this
    show ?thesis
    proof (cases "cur = []")
      case True
      then show ?thesis
        using nd Cons.IH [of "[]" "[]"] whole by simp
    next
      case False
      note ne = this
      show ?thesis
      proof (cases "is_space c")
        case True
        have "\<forall>c\<in>set (gap @ [c]). \<not> is_digit c"
          using Cons.prems nd by simp
        from Cons.IH [OF this, of cur] show ?thesis
          using nd ne True by simp
      next
        case False
        then show ?thesis
          using nd ne Cons.IH [of "[]" "[]"] whole by simp
      qed
    qed
  qed
qed

lemma scan_numbers_chars:
  assumes "\<forall>c\<in>set cur. is_digit c \<or> is_space c" "\<forall>c\<in>set gap. is_digit c \<or> is_space c"
  shows "\<forall>m\<in>set (scan_numbers cur gap s). \<forall>c\<in>set m. is_digit c \<or> is_space c"
  using assms
proof (induction s arbitrary: cur gap)
  case Nil
  then show ?case by simp
next
  case (Cons c cs)
  have e: "\<forall>m\<in>set (scan_numbers [] [] cs). \<forall>c\<in>set m. is_digit c \<or> is_space c"
    using Cons.IH [of "[]" "[]"] by simp
  have d: "is_digit c \<Longrightarrow> \<forall>m\<in>set (scan_numbers (cur @ gap @ [c]) [] cs). \<forall>c\<in>set m. is_digit c \<or> is_space c"
    using Cons.IH [of "cur @ gap @ [c]" "[]"] Cons.prems by auto
  have g: "is_space c \<Longrightarrow> \<forall>m\<in>set (scan_numbers cur (gap @ [c]) cs). \<forall>c\<in>set m. is_digit c \<or> is_space c"
    using Cons.IH [of cur "gap @ [c]"] Cons.prems by auto
  show ?case
    using e d g Cons.prems(1) by auto
qed

lemma filter_not_space:
  "\<forall>c\<in>set m. is_digit c \<or> is_space c \<Longrightarrow> filter (\<lambda>c. \<not> is_space c) m = filter is_digit m"
  by (rule filter_cong) (auto dest: digit_not_space)

lemma findall_numbers_digits:
  "map (filter (\<lambda>c. \<not> is_space c)) (findall_numbers response) =
   map (filter is_digit) (filter (list_ex is_digit) (pieces response))"
proof -
  have "map (filter (\<lambda>c. \<not> is_space c)) (findall_numbers response) =
        map (filter is_digit) (findall_numbers response)"
    using scan_numbers_chars [of "[]" "[]" response]
    by (intro map_cong refl filter_not_space) (simp add: findall_numbers_def)
  also have "\<dots> = map (filter is_digit) (filter (list_ex is_digit) (pieces response))"
  proof -
    obtain x xs where p: "pieces response = x # xs"
      using pieces_nonempty [of response] by (cases "pieces response") auto
    show ?thesis
      using scan_numbers_digits [of "[]" "[]" response] by (simp add: findall_numbers_def p)
  qed
  finally show ?thesis .
qed

lemma numbers_found_eq:
  "map (\<lambda>m. int_of_digits (filter (\<lambda>c. \<not> is_space c) m)) (findall_numbers response) =
   numbers_found response"
proof -
  have "map (\<lambda>m. int_of_digits (filter (\<lambda>c. \<not> is_space c) m)) (findall_numbers response) =
        map int_of_digits (map (filter (\<lambda>c. \<not> is_space c)) (findall_numbers response))"
    by simp
  also have "\<dots> = numbers_found response"
    unfolding findall_numbers_digits by (simp add: numbers_found_def)
  finally show ?thesis .
qed

lemma pieces_digit: "list_ex (list_ex is_digit) (pieces s) = list_ex is_digit s"
proof (induction s)
  case Nil
  then show ?case by simp
next
  case (Cons c cs)
  obtain x xs where p: "pieces cs = x # xs"
    using pieces_nonempty [of cs] by (cases "pieces cs") auto
  show ?case
    using Cons by (auto simp: p)
qed

lemma numbers_found_Nil: "numbers_found response = [] \<longleftrightarrow> \<not> list_ex is_digit response"
  using pieces_digit [of response]
  by (auto simp: numbers_found_def filter_empty_conv list_ex_iff)

lemma artist_price_of_mean:
  "artist_price_of response =
     (if numbers_found response = [] then None
      else Some (real_of_int (sum_list (numbers_found response)) /
                 real (length (numbers_found response))))"
proof -
  have l: "length (findall_numbers response) = length (numbers_found response)"
    using numbers_found_eq [of response, THEN arg_cong, of length] by simp
  show ?thesis
    unfolding artist_price_of_def Let_def numbers_found_eq
    using l by auto
qed

lemma known_price_block:
  assumes "vals ''materiaux'' = Some (Num m)" "vals ''livraison'' = Some (Num l)"
    "vals ''pub'' = Some (Num p)" "vals ''temps'' = Some (Num t)"
    "additional_factors_of vals = Inr af"
  shows "price_block vals mats md True None False df =
     Inr ((m + l + p + t * 15 + 50) * (1 + real (length mats) * 0.1) *
          (0.8 + 0.05 * real_of_int md) * df * af)"
  by (simp add: price_block_def and_then_def unadjusted_price_num [OF assms])

text \<open>
  Claim C9, as amended. The reference price is the mean of the numbers found in the
  oracle's response, where a number is a maximal run of digits and whitespace that holds a
  digit, read with its whitespace removed; any other character, a comma included, ends a
  number. If the response holds no digit the reference price is absent. For a known
  artist the fixed bonus of 50 is added to the costs.
\<close>

theorem reference_price_mean:
  "artist_price_of response =
     (if numbers_found response = [] then None
      else Some (real_of_int (sum_list (numbers_found response)) /
                 real (length (numbers_found response)))) \<and>
   (artist_price_of response = None \<longleftrightarrow> \<not> list_ex is_digit response) \<and>
   (db_fault e (db_writes s) = None \<longrightarrow>
      fst (get_artist_price e artiste type_produit s) =
        Inr (artist_price_of
               (returned_text e (length (sent s)) (artist_price_prompt artiste type_produit)))) \<and>
   (vals ''materiaux'' = Some (Num m) \<and> vals ''livraison'' = Some (Num l) \<and>
    vals ''pub'' = Some (Num p) \<and> vals ''temps'' = Some (Num t) \<and>
    additional_factors_of vals = Inr af \<longrightarrow>
      price_block vals mats md True None False df =
        Inr ((m + l + p + t * 15 + 50) * (1 + real (length mats) * 0.1) *
             (0.8 + 0.05 * real_of_int md) * df * af))"
proof -
  have "artist_price_of response = None \<longleftrightarrow> \<not> list_ex is_digit response"
    by (simp add: artist_price_of_mean numbers_found_Nil)
  moreover have "db_fault e (db_writes s) = None \<longrightarrow>
      fst (get_artist_price e artiste type_produit s) =
        Inr (artist_price_of
               (returned_text e (length (sent s)) (artist_price_prompt artiste type_produit)))"
    by (simp add: get_artist_price_def consult_api_gemini_ok then_call_def)
  ultimately show ?thesis
    using artist_price_of_mean [of response] known_price_block [of vals m l p t af mats md df]
    by blast
qed

lemma spaced_numbers: "numbers_found ''1 200 - 1 400'' = [1200, 1400]"
  by (simp add: numbers_found_def is_digit_def is_space_def int_of_digits_def digit_value_def)

theorem reference_price_mean_witness:
  "artist_price_of ''1 200 - 1 400'' = Some 1300 \<and>
   painting_values ''materiaux'' = Some (Num 20) \<and> painting_values ''livraison'' = Some (Num 10) \<and>
   painting_values ''pub'' = Some (Num 5) \<and> painting_values ''temps'' = Some (Num 8) \<and>
   additional_factors_of painting_values = Inr 1 \<and>
   price_block painting_values [''Canvas'', ''Oil''] 7 True None False 35 =
     Inr ((20 + 10 + 5 + 8 * 15 + 50) * 1.2 * 1.15 * 35)"
  using reference_price_mean [of "''1 200 - 1 400''" painting_env fresh "''Ana''" "''Painting''"
      painting_values 20 10 5 8 1 "[''Canvas'', ''Oil'']" 7 35]
  by (simp add: spaced_numbers painting_lookups painting_additional)

text \<open>
  A figure written with a comma as digit-group separator is read as two numbers: the
  reference price for the response "1,200" is the mean of 1 and 200.
\<close>

theorem reference_price_mean_counterexample:
  "findall_numbers ''1,200'' = [''1'', ''200''] \<and> artist_price_of ''1,200'' = Some 100.5"
  by (simp add: artist_price_of_def findall_numbers_def is_digit_def is_space_def
      int_of_digits_def digit_value_def)

section \<open>Typing pauses\<close>

lemma consult_api_gemini_sent:
  "sent (snd (consult_api_gemini e p k s)) = sent s @ [p]"
  by (simp add: consult_api_gemini_def api_error_def store_interaction_def Let_def
      split: sum.splits option.splits prod.splits)

lemma update_additional_simps:
  "after_queue (update_additional_costs_for_other_type e a) = after_queue a"
  "now_ms (update_additional_costs_for_other_type e a) = now_ms a"
  "other_type_text (update_additional_costs_for_other_type e a) = other_type_text a"
  "input_timer (update_additional_costs_for_other_type e a) = input_timer a"
  "next_id (update_additional_costs_for_other_type e a) = next_id a"
  "sent (world (update_additional_costs_for_other_type e a)) =
     (if strip (other_type_text a) = [] then sent (world a)
      else sent (world a) @ [requirements_prompt (strip (other_type_text a))])"
  by (simp_all add: update_additional_costs_for_other_type_def Let_def
      get_product_type_requirements_def consult_api_gemini_sent)

lemma run_until_idle:
  "after_queue a = [] \<Longrightarrow> run_until e t a = a\<lparr>now_ms := max (now_ms a) t\<rparr>"
  by (subst run_until.simps) simp

lemma run_until_early:
  "after_queue a = [(i, d, v)] \<Longrightarrow> t < d \<Longrightarrow> run_until e t a = a\<lparr>now_ms := max (now_ms a) t\<rparr>"
  by (subst run_until.simps) simp

lemma fire_armed:
  assumes "armed a d" "after_queue a = [(i, d, v)]"
  shows "fire e (i, d, v) a =
     update_additional_costs_for_other_type e
       (a\<lparr>after_queue := [], now_ms := max (now_ms a) d, last_other_value := v\<rparr>)"
  using assms by (auto simp: fire_def finish_typing_def armed_def Let_def)

lemma run_until_due:
  assumes "armed a d" "d \<le> t"
  shows "run_until e t a =
     (update_additional_costs_for_other_type e
        (a\<lparr>after_queue := [], now_ms := max (now_ms a) d,
           last_other_value := strip (other_type_text a)\<rparr>))
     \<lparr>now_ms := max (max (now_ms a) d) t\<rparr>"
proof -
  from assms(1) obtain i where q: "after_queue a = [(i, d, strip (other_type_text a))]"
    by (auto simp: armed_def)
  have "run_until e t a = run_until e t (fire e (i, d, strip (other_type_text a)) a)"
    using q assms(2) by (subst run_until.simps) simp
  also have "\<dots> = (fire e (i, d, strip (other_type_text a)) a)
       \<lparr>now_ms := max (now_ms (fire e (i, d, strip (other_type_text a)) a)) t\<rparr>"
    by (rule run_until_idle) (simp add: fire_armed [OF assms(1) q] update_additional_simps)
  finally show ?thesis
    by (simp add: fire_armed [OF assms(1) q] update_additional_simps)
qed

lemma run_until_sent:
  assumes "after_queue a = [] \<or> armed a d"
  shows "sent (world (run_until e t a)) =
     sent (world a) @
       (if after_queue a \<noteq> [] \<and> d \<le> t then [requirements_prompt (strip (other_type_text a))]
        else [])"
proof (cases "after_queue a = []")
  case True
  then show ?thesis
    by (simp add: run_until_idle)
next
  case False
  with assms have ar: "armed a d"
    by simp
  show ?thesis
  proof (cases "d \<le> t")
    case True
    then show ?thesis
      using False ar by (auto simp: run_until_due [OF ar True] update_additional_simps armed_def)
  next
    case False
    then show ?thesis
      using ar by (auto simp: armed_def run_until_early)
  qed
qed

lemma start_input_check_timer_clean:
  assumes "after_queue b = [] \<or> (\<exists>i d v. after_queue b = [(i, d, v)] \<and> input_timer b = Some i)"
  shows "now_ms (start_input_check_timer b) = now_ms b"
    and "other_type_text (start_input_check_timer b) = other_type_text b"
    and "world (start_input_check_timer b) = world b"
    and "strip (other_type_text b) = [] \<Longrightarrow> after_queue (start_input_check_timer b) = []"
    and "strip (other_type_text b) \<noteq> [] \<Longrightarrow>
           armed (start_input_check_timer b) (now_ms b + typing_pause_interval)"
  using assms
  by (auto simp: start_input_check_timer_def after_cancel_def after_def Let_def armed_def
      split: option.splits)

lemma run_until_shape:
  assumes inv: "after_queue a = [] \<or> armed a d"
  shows "after_queue (run_until e t a) = [] \<or>
         (\<exists>i d v. after_queue (run_until e t a) = [(i, d, v)] \<and> input_timer (run_until e t a) = Some i)"
    and "now_ms a \<le> t \<Longrightarrow> now_ms (run_until e t a) = t"
proof -
  consider "after_queue a = []" | "armed a d" "d \<le> t" | "armed a d" "t < d"
    using inv by fastforce
  then show "after_queue (run_until e t a) = [] \<or>
         (\<exists>i d v. after_queue (run_until e t a) = [(i, d, v)] \<and> input_timer (run_until e t a) = Some i)"
  proof cases
    case 1
    then show ?thesis by (simp add: run_until_idle)
  next
    case 2
    then show ?thesis by (simp add: run_until_due update_additional_simps)
  next
    case 3
    then show ?thesis by (auto simp: armed_def run_until_early)
  qed
  assume "now_ms a \<le> t"
  consider "after_queue a = []" | "armed a d" "d \<le> t" | "armed a d" "t < d"
    using inv by fastforce
  then show "now_ms (run_until e t a) = t"
  proof cases
    case 1
    then show ?thesis using \<open>now_ms a \<le> t\<close> by (simp add: run_until_idle)
  next
    case 2
    then show ?thesis using \<open>now_ms a \<le> t\<close> by (simp add: run_until_due)
  next
    case 3
    then show ?thesis using \<open>now_ms a \<le> t\<close> by (auto simp: armed_def run_until_early)
  qed
qed

lemma key_release_step:
  assumes inv: "after_queue a = [] \<or> armed a d" and now: "now_ms a \<le> t"
  shows "now_ms (key_release e (t, x) a) = t"
    and "other_type_text (key_release e (t, x) a) = x"
    and "sent (world (key_release e (t, x) a)) =
           sent (world a) @
             (if after_queue a \<noteq> [] \<and> d \<le> t then [requirements_prompt (strip (other_type_text a))]
              else [])"
    and "strip x = [] \<Longrightarrow> after_queue (key_release e (t, x) a) = []"
    and "strip x \<noteq> [] \<Longrightarrow> armed (key_release e (t, x) a) (t + typing_pause_interval)"
proof -
  let ?b = "(run_until e t a)\<lparr>other_type_text := x\<rparr>"
  have shape: "after_queue ?b = [] \<or> (\<exists>i d v. after_queue ?b = [(i, d, v)] \<and> input_timer ?b = Some i)"
    using run_until_shape(1) [OF inv, of e t] by simp
  have nb: "now_ms ?b = t"
    using run_until_shape(2) [OF inv now, of e] by simp
  have k: "key_release e (t, x) a = start_input_check_timer ?b"
    by (simp add: key_release_def)
  show "now_ms (key_release e (t, x) a) = t"
    unfolding k using start_input_check_timer_clean(1) [OF shape] nb by simp
  show "other_type_text (key_release e (t, x) a) = x"
    unfolding k using start_input_check_timer_clean(2) [OF shape] by simp
  show "sent (world (key_release e (t, x) a)) =
           sent (world a) @
             (if after_queue a \<noteq> [] \<and> d \<le> t then [requirements_prompt (strip (other_type_text a))]
              else [])"
    unfolding k using start_input_check_timer_clean(3) [OF shape] run_until_sent [OF inv, of e t]
    by simp
  show "strip x = [] \<Longrightarrow> after_queue (key_release e (t, x) a) = []"
    unfolding k using start_input_check_timer_clean(4) [OF shape] by simp
  show "strip x \<noteq> [] \<Longrightarrow> armed (key_release e (t, x) a) (t + typing_pause_interval)"
    unfolding k using start_input_check_timer_clean(5) [OF shape] nb by simp
qed

lemma run_sent:
  assumes "after_queue a = [] \<or> armed a d"
    and "sorted (map fst evs)"
    and "\<forall>ev\<in>set evs. now_ms a \<le> fst ev"
  shows "sent (world (run_until e T (run e evs a))) =
     sent (world a) @
     map requirements_prompt
       ((if after_queue a \<noteq> [] \<and> d \<le> (case evs of [] \<Rightarrow> T | ev # rest \<Rightarrow> fst ev)
         then [strip (other_type_text a)] else []) @ settled T evs)"
  using assms
proof (induction evs arbitrary: a d)
  case Nil
  then show ?case
    by (simp add: run_until_sent)
next
  case (Cons ev evs)
  obtain t x where ev: "ev = (t, x)"
    by (cases ev)
  let ?c = "key_release e (t, x) a"
  have now: "now_ms a \<le> t"
    using Cons.prems(3) ev by simp
  note step = key_release_step [OF Cons.prems(1) now, where e = e and x = x]
  have inv': "after_queue ?c = [] \<or> armed ?c (t + typing_pause_interval)"
    using step(4,5) by blast
  have later: "\<forall>ev\<in>set evs. now_ms ?c \<le> fst ev"
    using Cons.prems(2) ev step(1) by auto
  have srt: "sorted (map fst evs)"
    using Cons.prems(2) by simp
  have q: "after_queue ?c \<noteq> [] \<longleftrightarrow> strip x \<noteq> []"
  proof (cases "strip x = []")
    case True
    then show ?thesis
      using step(4) by simp
  next
    case False
    from step(5) [OF this] show ?thesis
      using False by (auto simp: armed_def)
  qed
  show ?case
    using Cons.IH [OF inv' srt later] step(2,3) q
    by (simp add: ev)
qed

lemma settled_quick:
  assumes "quick evs" "evs \<noteq> []"
  shows "settled T evs =
     (if strip (snd (last evs)) \<noteq> [] \<and> fst (last evs) + typing_pause_interval \<le> T
      then [strip (snd (last evs))] else [])"
  using assms
proof (induction evs rule: quick.induct)
  case 1
  then show ?case by simp
next
  case (2 ev)
  then show ?case by simp
next
  case (3 ev next_ev evs)
  then show ?case by simp
qed

lemma run_queue:
  assumes "after_queue a = [] \<or> armed a d"
    and "sorted (map fst evs)"
    and "\<forall>ev\<in>set evs. now_ms a \<le> fst ev"
    and "evs \<noteq> []"
  shows "if strip (snd (last evs)) = [] then after_queue (run e evs a) = []
         else armed (run e evs a) (fst (last evs) + typing_pause_interval)"
  using assms
proof (induction evs arbitrary: a d)
  case Nil
  then show ?case by simp
next
  case (Cons ev evs)
  obtain t x where ev: "ev = (t, x)"
    by (cases ev)
  let ?c = "key_release e (t, x) a"
  have now: "now_ms a \<le> t"
    using Cons.prems(3) ev by simp
  note step = key_release_step [OF Cons.prems(1) now, where e = e and x = x]
  have inv': "after_queue ?c = [] \<or> armed ?c (t + typing_pause_interval)"
    using step(4,5) by blast
  have later: "\<forall>ev\<in>set evs. now_ms ?c \<le> fst ev"
    using Cons.prems(2) ev step(1) by auto
  have srt: "sorted (map fst evs)"
    using Cons.prems(2) by simp
  show ?case
  proof (cases "evs = []")
    case True
    then show ?thesis
      using step(4,5) by (auto simp: ev)
  next
    case False
    from Cons.IH [OF inv' srt later False] show ?thesis
      using False by (simp add: ev)
  qed
qed

lemma finish_typing_live:
  "sent (world (finish_typing e v b)) = sent (world b) \<or>
   sent (world (finish_typing e v b)) =
     sent (world b) @ [requirements_prompt (strip (other_type_text b))]"
  by (auto simp: finish_typing_def Let_def update_additional_simps start_input_check_timer_def
      after_cancel_def after_def split: option.splits)

text \<open>
  Claim C7. Key releases arrive in the order of their times, each leaving a text in the
  entry, starting from a state with no pending timer. After every event no earlier timer
  is left, and a timer for the interval is armed exactly when the stripped text is not
  empty. The requirement queries sent up to the time \<open>T\<close> are, in order, exactly one for
  each text at which the input paused for the interval, asked for that text; in
  particular, while the events follow one another within less than the interval no query
  is sent before the last event is followed by the interval, and then one is, for the
  last text. A timer callback that finds the text changed sends nothing for the text it
  captured.
\<close>

theorem typing_pause_classification:
  assumes "after_queue a = []"
    and "sorted (map fst evs)"
    and "\<forall>ev\<in>set evs. now_ms a \<le> fst ev"
  shows "sent (world (run_until e T (run e evs a))) =
           sent (world a) @ map requirements_prompt (settled T evs) \<and>
         (evs \<noteq> [] \<longrightarrow>
            (if strip (snd (last evs)) = [] then after_queue (run e evs a) = []
             else \<exists>i. after_queue (run e evs a) =
                        [(i, fst (last evs) + typing_pause_interval, strip (snd (last evs)))])) \<and>
         (quick evs \<and> evs \<noteq> [] \<longrightarrow>
            sent (world (run_until e T (run e evs a))) =
              sent (world a) @
                (if strip (snd (last evs)) \<noteq> [] \<and> fst (last evs) + typing_pause_interval \<le> T
                 then [requirements_prompt (strip (snd (last evs)))] else [])) \<and>
         (\<forall>v b. sent (world (finish_typing e v b)) = sent (world b) \<or>
                sent (world (finish_typing e v b)) =
                  sent (world b) @ [requirements_prompt (strip (other_type_text b))])"
proof -
  have inv: "after_queue a = [] \<or> armed a 0"
    using assms(1) by simp
  have s: "sent (world (run_until e T (run e evs a))) =
           sent (world a) @ map requirements_prompt (settled T evs)"
    using run_sent [OF inv assms(2,3), of e T] assms(1) by simp
  have q: "evs \<noteq> [] \<longrightarrow>
            (if strip (snd (last evs)) = [] then after_queue (run e evs a) = []
             else \<exists>i. after_queue (run e evs a) =
                        [(i, fst (last evs) + typing_pause_interval, strip (snd (last evs)))])"
  proof
    assume ne: "evs \<noteq> []"
    have "other_type_text (run e evs a) = snd (last evs)"
      using ne
    proof (induction evs arbitrary: a)
      case Nil
      then show ?case by simp
    next
      case (Cons ev evs)
      show ?case
      proof (cases "evs = []")
        case True
        then show ?thesis
          by (cases ev) (simp add: key_release_def start_input_check_timer_def after_cancel_def
              after_def Let_def split: option.splits)
      next
        case False
        then show ?thesis
          using Cons.IH [of "key_release e ev a"] by simp
      qed
    qed
    then show "if strip (snd (last evs)) = [] then after_queue (run e evs a) = []
             else \<exists>i. after_queue (run e evs a) =
                        [(i, fst (last evs) + typing_pause_interval, strip (snd (last evs)))]"
      using run_queue [OF inv assms(2,3) ne, of e] by (auto simp: armed_def)
  qed
  show ?thesis
    using s q settled_quick [of evs T] finish_typing_live [of e] by simp
qed

lemma started_simps:
  "after_queue started = []" "now_ms started = 0" "sent (world started) = []"
  by (simp_all add: started_def fresh_def)

lemma strip_words:
  "strip ''v'' = ''v''" "strip ''vi'' = ''vi''" "strip ''vid'' = ''vid''" "strip ''vide'' = ''vide''"
  "strip ''video'' = ''video''"
  by (simp_all add: strip_def is_space_def)

theorem typing_pause_classification_witness:
  "after_queue started = [] \<and> sorted (map fst typing_video) \<and>
   sent (world (run_until painting_env 1900 (run painting_env typing_video started))) =
     [requirements_prompt ''vid''] \<and>
   sent (world (run_until painting_env 3200 (run painting_env typing_video started))) =
     [requirements_prompt ''vid'', requirements_prompt ''video'']"
proof -
  have a: "after_queue started = []" "sorted (map fst typing_video)"
    "\<forall>ev\<in>set typing_video. now_ms started \<le> fst ev"
    by (simp_all add: started_simps typing_video_def)
  have "settled 1900 typing_video = [''vid'']" "settled 3200 typing_video = [''vid'', ''video'']"
    by (simp_all add: typing_video_def strip_words typing_pause_interval_def)
  then show ?thesis
    using typing_pause_classification [OF a, of painting_env 1900]
      typing_pause_classification [OF a, of painting_env 3200] a
    by (simp add: started_simps)
qed

end
